theory Spec2Isabelle
  imports Complex_Main
begin

section \<open>JavaScript numbers and their renderings\<close>

text \<open>
  The screens compute with JavaScript numbers, which are IEEE 754 doubles. A double is
  modelled by the real number it denotes, and the result of a division, of a
  multiplication and of reading a decimal text is rounded to the nearest double by
  \<open>dbl\<close> (53 significant bits, a tie going to the even neighbour). The exponent range
  is not bounded in the model: overflow, gradual underflow and the sign of zero are left
  out. A multiplication by \<open>8\<close> or by a power of two changes the exponent only and needs
  no rounding. \<^verbatim>\<open>Math.pow\<close> is approximated by each engine in its own way; the model takes
  the square as the rounded product and every other power as the exact power.

  JavaScript answers a division by zero with \<open>Infinity\<close> or \<open>NaN\<close> and goes on; HOL's own
  \<open>x / 0 = 0\<close> is not what the program computes. So every division of the program is
  guarded in the model, and a zero divisor ends the computation with the outcome
  \<open>NonFinite\<close>: some value of the run is \<open>Infinity\<close> or \<open>NaN\<close>, and the model follows it
  no further. \<open>Null\<close> is the value \<open>null\<close> returned by an early \<open>return null\<close>.
\<close>

datatype 'a outcome = Null | NonFinite | Result 'a

text \<open>
  The binary exponent of a positive number \<open>a\<close>, the \<open>e\<close> with \<open>2^e \<le> a < 2^(e+1)\<close>:
  halve a number from \<open>2\<close> on, double a number below \<open>1\<close>.
\<close>

function bexp_up :: "real \<Rightarrow> int" where
  "bexp_up a = (if a < 2 then 0 else bexp_up (a / 2) + 1)"
  by pat_completeness auto
termination
proof (relation "measure (\<lambda>a. nat \<lfloor>a\<rfloor>)")
  show "wf (measure (\<lambda>a. nat \<lfloor>a\<rfloor>))" by simp
next
  fix a :: real
  assume "\<not> a < 2"
  then have a: "2 \<le> a" by simp
  then have "a / 2 \<le> a - 1" by simp
  then have "\<lfloor>a / 2\<rfloor> \<le> \<lfloor>a - 1\<rfloor>" by (rule floor_mono)
  moreover have "\<lfloor>a - 1\<rfloor> = \<lfloor>a\<rfloor> - 1" by simp
  moreover have "2 \<le> \<lfloor>a\<rfloor>" using a by (simp add: le_floor_iff)
  ultimately show "(a / 2, a) \<in> measure (\<lambda>a. nat \<lfloor>a\<rfloor>)" by simp
qed

function bexp_down :: "real \<Rightarrow> int" where
  "bexp_down a = (if 1 \<le> a \<or> a \<le> 0 then 0 else bexp_down (2 * a) - 1)"
  by pat_completeness auto
termination
proof (relation "measure (\<lambda>a. nat \<lfloor>1 / a\<rfloor>)")
  show "wf (measure (\<lambda>a. nat \<lfloor>1 / a\<rfloor>))" by simp
next
  fix a :: real
  assume "\<not> (1 \<le> a \<or> a \<le> 0)"
  then have a: "0 < a" "a < 1" by simp_all
  define y where "y = 1 / a"
  have y: "1 < y" using a by (simp add: y_def)
  have e: "1 / (2 * a) = y / 2" by (simp add: y_def)
  have "\<lfloor>y / 2\<rfloor> < \<lfloor>y\<rfloor>"
  proof (cases "y < 2")
    case True
    then have "\<lfloor>y / 2\<rfloor> = 0" using y by (simp add: floor_eq_iff)
    moreover have "1 \<le> \<lfloor>y\<rfloor>" using y by (simp add: le_floor_iff)
    ultimately show ?thesis by simp
  next
    case False
    then have "y / 2 \<le> y - 1" by simp
    then have "\<lfloor>y / 2\<rfloor> \<le> \<lfloor>y - 1\<rfloor>" by (rule floor_mono)
    then show ?thesis by simp
  qed
  moreover have "0 < \<lfloor>y\<rfloor>" using y by (simp add: less_floor_iff)
  ultimately show "(2 * a, a) \<in> measure (\<lambda>a. nat \<lfloor>1 / a\<rfloor>)"
    by (simp add: e y_def [symmetric])
qed

declare bexp_up.simps [simp del] bexp_down.simps [simp del]

definition binexp :: "real \<Rightarrow> int" where
  "binexp a = (if 1 \<le> a then bexp_up a else bexp_down a)"

definition pow2 :: "int \<Rightarrow> real" where
  "pow2 e = (if 0 \<le> e then 2 ^ nat e else 1 / 2 ^ nat (- e))"

text \<open>The nearest integer, a tie going to the even one.\<close>

definition round_even :: "real \<Rightarrow> int" where
  "round_even x =
     (if x - of_int \<lfloor>x\<rfloor> < 1 / 2 then \<lfloor>x\<rfloor>
      else if 1 / 2 < x - of_int \<lfloor>x\<rfloor> then \<lfloor>x\<rfloor> + 1
      else if even \<lfloor>x\<rfloor> then \<lfloor>x\<rfloor> else \<lfloor>x\<rfloor> + 1)"

text \<open>The multiple of the quantum \<open>q\<close> nearest to \<open>a\<close>.\<close>

definition round_to :: "real \<Rightarrow> real \<Rightarrow> real" where
  "round_to q a = of_int (round_even (a / q)) * q"

text \<open>
  The double nearest to \<open>x\<close>: between \<open>2^e\<close> and \<open>2^(e+1)\<close> the doubles are the multiples
  of \<open>2^(e-52)\<close>.
\<close>

definition dbl :: "real \<Rightarrow> real" where
  "dbl x =
     (if x = 0 then 0
      else if x < 0 then - round_to (pow2 (binexp (- x) - 52)) (- x)
      else round_to (pow2 (binexp x - 52)) x)"

definition digit_char :: "nat \<Rightarrow> char" where
  "digit_char d = ''0123456789'' ! d"

text \<open>Decimal digits of a natural number, most significant first.\<close>

function showNat :: "nat \<Rightarrow> string" where
  "showNat n = (if n < 10 then [digit_char n] else showNat (n div 10) @ [digit_char (n mod 10)])"
  by pat_completeness auto
termination
  by (relation "measure (\<lambda>n. n)") auto

declare showNat.simps [simp del]

text \<open>
  Number-to-string conversion of an integral number (template literals
  \<^verbatim>\<open>`${minutes}m`\<close>), for magnitudes below \<open>10^21\<close>, where JavaScript prints plain
  decimal digits.
\<close>

definition js_int_str :: "int \<Rightarrow> string" where
  "js_int_str i = (if i < 0 then ''-'' @ showNat (nat (- i)) else showNat (nat i))"

text \<open>
  \<^verbatim>\<open>x.toFixed(1)\<close>: the sign is split off, then the integer \<open>n\<close> with \<open>n / 10\<close> nearest
  to \<open>x\<close> is taken (the larger one on a tie) and printed with a point before its last
  digit. (For \<open>x \<ge> 10^21\<close> JavaScript switches to exponent notation; not modelled.)
\<close>

definition toFixed1 :: "real \<Rightarrow> string" where
  "toFixed1 x =
     (let n = nat \<lfloor>\<bar>x\<bar> * 10 + 1 / 2\<rfloor>
      in (if x < 0 then ''-'' else '''') @ showNat (n div 10) @ ''.'' @ showNat (n mod 10))"

definition is_digit :: "char \<Rightarrow> bool" where
  "is_digit c = (c \<in> set ''0123456789'')"

definition is_space :: "char \<Rightarrow> bool" where
  "is_space c = (c \<in> set [CHR '' '', CHR 0x09, CHR 0x0A, CHR 0x0B, CHR 0x0C, CHR 0x0D])"

text \<open>The value of a digit is its place among the ten digit characters.\<close>

definition digit_val :: "char \<Rightarrow> nat" where
  "digit_val c = length (takeWhile (\<lambda>d. d \<noteq> c) ''0123456789'')"

definition digits_val :: "string \<Rightarrow> nat" where
  "digits_val ds = foldl (\<lambda>a c. 10 * a + digit_val c) 0 ds"

text \<open>
  \<^verbatim>\<open>parseFloat\<close> on the decimal literals the program feeds it (texts printed by
  \<^verbatim>\<open>toFixed\<close>, plain ASCII): leading white space, an optional sign, digits, an optional
  fraction. The value is the double nearest to the decimal read. \<open>None\<close> stands for a
  result that is not a finite number: \<open>NaN\<close> when no literal starts the text, \<open>Infinity\<close>
  for the text \<^verbatim>\<open>Infinity\<close>. (Exponents are not modelled.)
\<close>

definition parseFloat :: "string \<Rightarrow> real option" where
  "parseFloat str =
     (let s1 = dropWhile is_space str;
          neg = (s1 \<noteq> [] \<and> hd s1 = CHR ''-'');
          s2 = (if s1 \<noteq> [] \<and> (hd s1 = CHR ''-'' \<or> hd s1 = CHR ''+'') then tl s1 else s1);
          ip = takeWhile is_digit s2;
          s3 = dropWhile is_digit s2;
          fp = (if s3 \<noteq> [] \<and> hd s3 = CHR ''.'' then takeWhile is_digit (tl s3) else []);
          v = dbl (real (digits_val ip) + real (digits_val fp) / 10 ^ length fp)
      in if ip = [] \<and> fp = [] then None else Some (if neg then - v else v))"

text \<open>\<^verbatim>\<open>Math.round\<close>: the nearest integer, a tie going up.\<close>

definition Math_round :: "real \<Rightarrow> int" where
  "Math_round x = \<lfloor>x + 1 / 2\<rfloor>"

definition Math_floor :: "real \<Rightarrow> int" where
  "Math_floor x = \<lfloor>x\<rfloor>"

text \<open>The remainder operator \<^verbatim>\<open>%\<close>: the quotient is truncated towards zero.\<close>

definition js_rem :: "real \<Rightarrow> real \<Rightarrow> real" where
  "js_rem x y = x - y * of_int (if 0 \<le> x / y then \<lfloor>x / y\<rfloor> else \<lceil>x / y\<rceil>)"

section \<open>Data model\<close>

text \<open>
  The types of the module \<^verbatim>\<open>../types\<close>, as the screens use them. A window size, the
  effective film dimensions and the viewfinder rectangle are all objects with the fields
  \<open>width\<close> and \<open>height\<close>; a film format carries a \<open>name\<close> as well.
\<close>

record dimensions =
  width :: real
  height :: real

record filmFormat = dimensions +
  name :: string

datatype FilmOrientation = landscape | portrait

record LightingCondition =
  name :: string
  fStop :: real

text \<open>
  A profile's name is typed by the user and may hold any character: it is a list of
  UTF-16 code units, as a JavaScript string is.
\<close>

type_synonym js_string = "nat list"

record Profile =
  id :: string
  name :: js_string
  focalLength :: real
  pinholeSize :: real
  filmFormat :: filmFormat
  filmOrientation :: FilmOrientation
  iso :: real

text \<open>
  \<open>filmOrientation\<close> and \<open>selectedCondition\<close> may be absent (\<open>None\<close>); the code tests
  both for truthiness, and an empty string is as falsy as an absent one.
\<close>

record AppSettings =
  focalLength :: real
  pinholeSize :: real
  filmFormat :: filmFormat
  filmOrientation :: "FilmOrientation option"
  iso :: real
  selectedCondition :: "string option"
  bracketStops :: real
  useReciprocityFailure :: bool
  useRedFilter :: bool

section \<open>The viewfinder screen (src/frontend/screens/ViewfinderScreen.tsx)\<close>

text \<open>
  \<^verbatim>\<open>formatExposure\<close>, lines 127 to 137. The argument is a double. The quotients
  \<open>1 / seconds\<close> and \<open>seconds / 60\<close> are rounded to doubles before \<^verbatim>\<open>Math.round\<close> and
  \<^verbatim>\<open>Math.floor\<close> read them; the remainder \<^verbatim>\<open>seconds % 60\<close> is exact in IEEE arithmetic, and so
  is the decimal that \<^verbatim>\<open>toFixed\<close> prints. For \<open>seconds = 0\<close> the quotient \<open>1 / seconds\<close> is
  \<open>Infinity\<close>, which \<^verbatim>\<open>Math.round\<close> returns and the template prints by name.
\<close>

definition formatExposure :: "real \<Rightarrow> string" where
  "formatExposure seconds =
     (if seconds < 1 then
        (if seconds = 0 then ''1/Infinitys''
         else ''1/'' @ js_int_str (Math_round (dbl (1 / seconds))) @ ''s'')
      else if seconds < 60 then toFixed1 seconds @ ''s''
      else
        (let minutes = Math_floor (dbl (seconds / 60));
             secs = Math_round (js_rem seconds 60)
         in if secs > 0 then js_int_str minutes @ ''m '' @ js_int_str secs @ ''s''
            else js_int_str minutes @ ''m''))"

text \<open>
  \<^verbatim>\<open>calculateFStop\<close>, lines 44 to 46. The quotient is a double, and \<^verbatim>\<open>toFixed\<close> prints
  that double. With a zero pinhole the quotient is not finite and \<^verbatim>\<open>toFixed\<close> prints its
  name.
\<close>

definition calculateFStop :: "AppSettings \<Rightarrow> string" where
  "calculateFStop settings =
     (if pinholeSize settings = 0 then
        (if focalLength settings > 0 then ''Infinity''
         else if focalLength settings < 0 then ''-Infinity'' else ''NaN'')
      else toFixed1 (dbl (focalLength settings / pinholeSize settings)))"

text \<open>\<^verbatim>\<open>getEffectiveDimensions\<close>, lines 48 to 56.\<close>

definition getEffectiveDimensions :: "AppSettings \<Rightarrow> dimensions" where
  "getEffectiveDimensions settings =
     (let w = width (filmFormat settings); h = height (filmFormat settings);
          orientation = (case filmOrientation settings of None \<Rightarrow> landscape | Some v \<Rightarrow> v)
      in if orientation = portrait then \<lparr>width = h, height = w\<rparr>
         else \<lparr>width = w, height = h\<rparr>)"

text \<open>\<^verbatim>\<open>isDeviceLandscape\<close>, line 35.\<close>

definition isDeviceLandscape :: "dimensions \<Rightarrow> bool" where
  "isDeviceLandscape dims = (width dims > height dims)"

text \<open>
  \<^verbatim>\<open>calculateViewfinderSize\<close>, lines 59 to 99. The window size is the component state
  \<open>dimensions\<close>. Each division is guarded where it happens: a zero divisor gives
  \<open>NonFinite\<close>. The lengths are compared and bounded, no digit of them is read: their
  arithmetic is taken exact.
\<close>

definition calculateViewfinderSize :: "dimensions \<Rightarrow> AppSettings \<Rightarrow> dimensions outcome" where
  "calculateViewfinderSize dims settings =
     (let screenWidth = width dims;
          screenHeight = height dims;
          effectiveDims = getEffectiveDimensions settings
      in if height effectiveDims = 0 then NonFinite
         else
           let filmAspectRatio = width effectiveDims / height effectiveDims
           in if isDeviceLandscape dims then
                (let availableWidth = screenWidth * 0.58;
                     availableHeight = screenHeight - 20;
                     viewfinderHeight = availableHeight * 0.92;
                     viewfinderWidth = viewfinderHeight * filmAspectRatio
                 in if viewfinderWidth > availableWidth then
                      (if filmAspectRatio = 0 then NonFinite
                       else Result \<lparr>width = availableWidth,
                                    height = availableWidth / filmAspectRatio\<rparr>)
                    else Result \<lparr>width = viewfinderWidth, height = viewfinderHeight\<rparr>)
              else
                (let availableWidth = screenWidth - 32;
                     availableHeight = screenHeight * 0.50;
                     viewfinderWidth = availableWidth * 0.95
                 in if filmAspectRatio = 0 then NonFinite
                    else
                      let viewfinderHeight = viewfinderWidth / filmAspectRatio
                      in if viewfinderHeight > availableHeight then
                           Result \<lparr>width = availableHeight * filmAspectRatio,
                                   height = availableHeight\<rparr>
                         else Result \<lparr>width = viewfinderWidth, height = viewfinderHeight\<rparr>))"

text \<open>
  The available space of each branch of \<^verbatim>\<open>calculateViewfinderSize\<close>: its local constants
  \<open>availableWidth\<close> and \<open>availableHeight\<close> (lines 71 and 72, 83 and 84).
\<close>

definition availableSpace :: "dimensions \<Rightarrow> dimensions" where
  "availableSpace dims =
     (if isDeviceLandscape dims then \<lparr>width = width dims * 0.58, height = height dims - 20\<rparr>
      else \<lparr>width = width dims - 32, height = height dims * 0.50\<rparr>)"

text \<open>
  \<^verbatim>\<open>calculateExposure\<close>, lines 101 to 125, in two parts. \<open>exposureTime\<close> is lines 102 to
  122: the value of the local variable \<open>exposureTime\<close> when the last line is reached,
  \<open>Null\<close> when the function has returned \<open>null\<close> before. The catalogue
  \<open>LIGHTING_CONDITIONS\<close> is imported from \<^verbatim>\<open>../types\<close> and is a parameter here.
  The two quotients and the product of line 110 and 111 are rounded to doubles;
  \<^verbatim>\<open>Math.pow(x, 2)\<close> is the rounded product \<open>x * x\<close>. \<^verbatim>\<open>Math.pow(x, 1.3)\<close> is taken of an
  \<open>x > 1\<close> only and \<^verbatim>\<open>Math.pow(2, b)\<close> has a positive base: both are the exact power
  \<open>powr\<close>. The factor \<open>8\<close> and the bracket multiplier (the slider moves in whole stops, so
  it is a power of two) change the exponent only and are not rounded. The source assigns
  to the one variable \<open>exposureTime\<close> four times; \<open>t0\<close>, \<open>t1\<close>, \<open>t2\<close> and the result are
  its successive values.
\<close>

definition exposureTime :: "LightingCondition list \<Rightarrow> AppSettings \<Rightarrow> real outcome" where
  "exposureTime LIGHTING_CONDITIONS settings =
     (case selectedCondition settings of
        None \<Rightarrow> Null
      | Some selected \<Rightarrow>
          if selected = [] then Null
          else
            (case find (\<lambda>c. LightingCondition.name c = selected) LIGHTING_CONDITIONS of
               None \<Rightarrow> Null
             | Some condition \<Rightarrow>
                 (case parseFloat (calculateFStop settings) of
                    None \<Rightarrow> NonFinite
                  | Some actualFStop \<Rightarrow>
                      let referenceFStop = fStop condition
                      in if iso settings = 0 \<or> referenceFStop = 0 then NonFinite
                         else
                           let baseExposure = dbl (1 / iso settings);
                               ratio = dbl (actualFStop / referenceFStop);
                               t0 = dbl (baseExposure * dbl (ratio * ratio));
                               t1 = (if useReciprocityFailure settings \<and> t0 > 1
                                     then t0 powr 1.3 else t0);
                               t2 = (if useRedFilter settings then t1 * 8 else t1);
                               bracketMultiplier = 2 powr bracketStops settings
                           in Result (t2 * bracketMultiplier))))"

text \<open>
  Line 124: the time is formatted. A time that is not finite is printed by name
  (\<^verbatim>\<open>Infinitym\<close>, \<^verbatim>\<open>NaNm\<close>); the model keeps \<open>NonFinite\<close> for it.
\<close>

definition calculateExposure :: "LightingCondition list \<Rightarrow> AppSettings \<Rightarrow> string outcome" where
  "calculateExposure LIGHTING_CONDITIONS settings =
     (case exposureTime LIGHTING_CONDITIONS settings of
        Null \<Rightarrow> Null
      | NonFinite \<Rightarrow> NonFinite
      | Result seconds \<Rightarrow> Result (formatExposure seconds))"

section \<open>The second viewfinder screen (src/unnamed/part_002)\<close>

text \<open>\<^verbatim>\<open>calculateFStop\<close>, lines 43 to 45.\<close>

definition calculateFStop_002 :: "AppSettings \<Rightarrow> string" where
  "calculateFStop_002 settings =
     (if pinholeSize settings = 0 then
        (if focalLength settings > 0 then ''Infinity''
         else if focalLength settings < 0 then ''-Infinity'' else ''NaN'')
      else toFixed1 (dbl (focalLength settings / pinholeSize settings)))"

text \<open>\<^verbatim>\<open>getEffectiveDimensions\<close>, lines 48 to 56.\<close>

definition getEffectiveDimensions_002 :: "AppSettings \<Rightarrow> dimensions" where
  "getEffectiveDimensions_002 settings =
     (let w = width (filmFormat settings); h = height (filmFormat settings);
          orientation = (case filmOrientation settings of None \<Rightarrow> landscape | Some v \<Rightarrow> v)
      in if orientation = portrait then \<lparr>width = h, height = w\<rparr>
         else \<lparr>width = w, height = h\<rparr>)"

text \<open>\<^verbatim>\<open>calculateViewfinderSize\<close>, lines 59 to 96; \<open>isScreenLandscape\<close> is its line 62.\<close>

definition calculateViewfinderSize_002 :: "dimensions \<Rightarrow> AppSettings \<Rightarrow> dimensions outcome" where
  "calculateViewfinderSize_002 dims settings =
     (let screenWidth = width dims;
          screenHeight = height dims;
          isScreenLandscape = (screenWidth > screenHeight);
          effectiveDims = getEffectiveDimensions_002 settings
      in if height effectiveDims = 0 then NonFinite
         else
           let filmAspectRatio = width effectiveDims / height effectiveDims
           in if isScreenLandscape then
                (let availableHeight = screenHeight - 200;
                     viewfinderHeight = availableHeight * 0.85;
                     viewfinderWidth = viewfinderHeight * filmAspectRatio
                 in if viewfinderWidth > screenWidth * 0.85 then
                      (if filmAspectRatio = 0 then NonFinite
                       else Result \<lparr>width = screenWidth * 0.85,
                                    height = screenWidth * 0.85 / filmAspectRatio\<rparr>)
                    else Result \<lparr>width = viewfinderWidth, height = viewfinderHeight\<rparr>)
              else
                (let availableWidth = screenWidth - 48;
                     availableHeight = screenHeight * 0.55;
                     viewfinderWidth = availableWidth * 0.95
                 in if filmAspectRatio = 0 then NonFinite
                    else
                      let viewfinderHeight = viewfinderWidth / filmAspectRatio
                      in if viewfinderHeight > availableHeight then
                           Result \<lparr>width = availableHeight * filmAspectRatio,
                                   height = availableHeight\<rparr>
                         else Result \<lparr>width = viewfinderWidth, height = viewfinderHeight\<rparr>))"

text \<open>\<^verbatim>\<open>formatExposure\<close>, lines 128 to 138.\<close>

definition formatExposure_002 :: "real \<Rightarrow> string" where
  "formatExposure_002 seconds =
     (if seconds < 1 then
        (if seconds = 0 then ''1/Infinitys''
         else ''1/'' @ js_int_str (Math_round (dbl (1 / seconds))) @ ''s'')
      else if seconds < 60 then toFixed1 seconds @ ''s''
      else
        (let minutes = Math_floor (dbl (seconds / 60));
             secs = Math_round (js_rem seconds 60)
         in if secs > 0 then js_int_str minutes @ ''m '' @ js_int_str secs @ ''s''
            else js_int_str minutes @ ''m''))"

text \<open>\<^verbatim>\<open>calculateExposure\<close>, lines 99 to 126, split as above.\<close>

definition exposureTime_002 :: "LightingCondition list \<Rightarrow> AppSettings \<Rightarrow> real outcome" where
  "exposureTime_002 LIGHTING_CONDITIONS settings =
     (case selectedCondition settings of
        None \<Rightarrow> Null
      | Some selected \<Rightarrow>
          if selected = [] then Null
          else
            (case find (\<lambda>c. LightingCondition.name c = selected) LIGHTING_CONDITIONS of
               None \<Rightarrow> Null
             | Some condition \<Rightarrow>
                 (case parseFloat (calculateFStop_002 settings) of
                    None \<Rightarrow> NonFinite
                  | Some actualFStop \<Rightarrow>
                      let referenceFStop = fStop condition
                      in if iso settings = 0 \<or> referenceFStop = 0 then NonFinite
                         else
                           let baseExposure = dbl (1 / iso settings);
                               ratio = dbl (actualFStop / referenceFStop);
                               t0 = dbl (baseExposure * dbl (ratio * ratio));
                               t1 = (if useReciprocityFailure settings \<and> t0 > 1
                                     then t0 powr 1.3 else t0);
                               t2 = (if useRedFilter settings then t1 * 8 else t1);
                               bracketMultiplier = 2 powr bracketStops settings
                           in Result (t2 * bracketMultiplier))))"

definition calculateExposure_002 :: "LightingCondition list \<Rightarrow> AppSettings \<Rightarrow> string outcome" where
  "calculateExposure_002 LIGHTING_CONDITIONS settings =
     (case exposureTime_002 LIGHTING_CONDITIONS settings of
        Null \<Rightarrow> Null
      | NonFinite \<Rightarrow> NonFinite
      | Result seconds \<Rightarrow> Result (formatExposure_002 seconds))"

section \<open>The third viewfinder screen (src/unnamed/part_003)\<close>

text \<open>\<^verbatim>\<open>calculateFStop\<close>, lines 46 to 48.\<close>

definition calculateFStop_003 :: "AppSettings \<Rightarrow> string" where
  "calculateFStop_003 settings =
     (if pinholeSize settings = 0 then
        (if focalLength settings > 0 then ''Infinity''
         else if focalLength settings < 0 then ''-Infinity'' else ''NaN'')
      else toFixed1 (dbl (focalLength settings / pinholeSize settings)))"

text \<open>\<^verbatim>\<open>getEffectiveDimensions\<close>, lines 50 to 58.\<close>

definition getEffectiveDimensions_003 :: "AppSettings \<Rightarrow> dimensions" where
  "getEffectiveDimensions_003 settings =
     (let w = width (filmFormat settings); h = height (filmFormat settings);
          orientation = (case filmOrientation settings of None \<Rightarrow> landscape | Some v \<Rightarrow> v)
      in if orientation = portrait then \<lparr>width = h, height = w\<rparr>
         else \<lparr>width = w, height = h\<rparr>)"

text \<open>\<^verbatim>\<open>calculateViewfinderSize\<close>, lines 60 to 97; \<open>isLandscape\<close> is line 35.\<close>

definition calculateViewfinderSize_003 :: "dimensions \<Rightarrow> AppSettings \<Rightarrow> dimensions outcome" where
  "calculateViewfinderSize_003 dims settings =
     (let screenWidth = width dims;
          screenHeight = height dims;
          isLandscape = (width dims > height dims);
          effectiveDims = getEffectiveDimensions_003 settings
      in if height effectiveDims = 0 then NonFinite
         else
           let filmAspectRatio = width effectiveDims / height effectiveDims
           in if isLandscape then
                (let availableWidth = screenWidth * 0.56;
                     availableHeight = screenHeight - 80;
                     viewfinderHeight = availableHeight * 0.85;
                     viewfinderWidth = viewfinderHeight * filmAspectRatio
                 in if viewfinderWidth > availableWidth * 0.9 then
                      (if filmAspectRatio = 0 then NonFinite
                       else Result \<lparr>width = availableWidth * 0.9,
                                    height = availableWidth * 0.9 / filmAspectRatio\<rparr>)
                    else Result \<lparr>width = viewfinderWidth, height = viewfinderHeight\<rparr>)
              else
                (let availableWidth = screenWidth - 32;
                     availableHeight = screenHeight * 0.50;
                     viewfinderWidth = availableWidth * 0.95
                 in if filmAspectRatio = 0 then NonFinite
                    else
                      let viewfinderHeight = viewfinderWidth / filmAspectRatio
                      in if viewfinderHeight > availableHeight then
                           Result \<lparr>width = availableHeight * filmAspectRatio,
                                   height = availableHeight\<rparr>
                         else Result \<lparr>width = viewfinderWidth, height = viewfinderHeight\<rparr>))"

text \<open>\<^verbatim>\<open>formatExposure\<close>, lines 125 to 135.\<close>

definition formatExposure_003 :: "real \<Rightarrow> string" where
  "formatExposure_003 seconds =
     (if seconds < 1 then
        (if seconds = 0 then ''1/Infinitys''
         else ''1/'' @ js_int_str (Math_round (dbl (1 / seconds))) @ ''s'')
      else if seconds < 60 then toFixed1 seconds @ ''s''
      else
        (let minutes = Math_floor (dbl (seconds / 60));
             secs = Math_round (js_rem seconds 60)
         in if secs > 0 then js_int_str minutes @ ''m '' @ js_int_str secs @ ''s''
            else js_int_str minutes @ ''m''))"

text \<open>\<^verbatim>\<open>calculateExposure\<close>, lines 99 to 123, split as above.\<close>

definition exposureTime_003 :: "LightingCondition list \<Rightarrow> AppSettings \<Rightarrow> real outcome" where
  "exposureTime_003 LIGHTING_CONDITIONS settings =
     (case selectedCondition settings of
        None \<Rightarrow> Null
      | Some selected \<Rightarrow>
          if selected = [] then Null
          else
            (case find (\<lambda>c. LightingCondition.name c = selected) LIGHTING_CONDITIONS of
               None \<Rightarrow> Null
             | Some condition \<Rightarrow>
                 (case parseFloat (calculateFStop_003 settings) of
                    None \<Rightarrow> NonFinite
                  | Some actualFStop \<Rightarrow>
                      let referenceFStop = fStop condition
                      in if iso settings = 0 \<or> referenceFStop = 0 then NonFinite
                         else
                           let baseExposure = dbl (1 / iso settings);
                               ratio = dbl (actualFStop / referenceFStop);
                               t0 = dbl (baseExposure * dbl (ratio * ratio));
                               t1 = (if useReciprocityFailure settings \<and> t0 > 1
                                     then t0 powr 1.3 else t0);
                               t2 = (if useRedFilter settings then t1 * 8 else t1);
                               bracketMultiplier = 2 powr bracketStops settings
                           in Result (t2 * bracketMultiplier))))"

definition calculateExposure_003 :: "LightingCondition list \<Rightarrow> AppSettings \<Rightarrow> string outcome" where
  "calculateExposure_003 LIGHTING_CONDITIONS settings =
     (case exposureTime_003 LIGHTING_CONDITIONS settings of
        Null \<Rightarrow> Null
      | NonFinite \<Rightarrow> NonFinite
      | Result seconds \<Rightarrow> Result (formatExposure_003 seconds))"

section \<open>The general sizing algorithm of the specification\<close>

text \<open>
  Steps 2 to 5 of the specification's algorithm, in its words: from a candidate height
  derive the candidate width \<open>height \<times> aspect ratio\<close>; if that exceeds the width budget,
  clamp the width to the budget and derive the height again as \<open>width / aspect ratio\<close>.
\<close>

definition spec_fit :: "real \<Rightarrow> real \<Rightarrow> real \<Rightarrow> dimensions" where
  "spec_fit candidateHeight widthBudget filmAspectRatio =
     (let candidateWidth = candidateHeight * filmAspectRatio
      in if candidateWidth > widthBudget
         then \<lparr>width = widthBudget, height = widthBudget / filmAspectRatio\<rparr>
         else \<lparr>width = candidateWidth, height = candidateHeight\<rparr>)"

text \<open>
  The mirror image, as the device-portrait branches are written: from a candidate width
  derive the candidate height \<open>width / aspect ratio\<close>; if that exceeds the height budget,
  clamp the height to the budget and derive the width again as \<open>height \<times> aspect ratio\<close>.
\<close>

definition width_first_fit :: "real \<Rightarrow> real \<Rightarrow> real \<Rightarrow> dimensions" where
  "width_first_fit candidateWidth heightBudget filmAspectRatio =
     (let candidateHeight = candidateWidth / filmAspectRatio
      in if candidateHeight > heightBudget
         then \<lparr>width = heightBudget * filmAspectRatio, height = heightBudget\<rparr>
         else \<lparr>width = candidateWidth, height = candidateHeight\<rparr>)"

section \<open>The camera settings screen (src/unnamed/part_001)\<close>

text \<open>
  The component state that \<^verbatim>\<open>loadProfiles\<close> and \<^verbatim>\<open>saveProfile\<close> touch: the hooks
  \<open>profiles\<close> and \<open>profileName\<close>, the lines written with \<^verbatim>\<open>console.error\<close> and the
  dialogs opened with \<^verbatim>\<open>Alert.alert\<close>.
\<close>

record CameraSettingsState =
  profiles :: "Profile list"
  profileName :: js_string
  console :: "string list"
  alerts :: "(string \<times> string) list"

text \<open>An awaited promise either rejects (the \<^verbatim>\<open>await\<close> throws) or resolves to a value.\<close>

datatype 'a promise = Rejected string | Resolved 'a

text \<open>
  \<^verbatim>\<open>loadProfiles\<close>, lines 56 to 65. \<open>getItem\<close> is \<^verbatim>\<open>AsyncStorage.getItem\<close>; \<open>JSON_parse\<close> is
  \<^verbatim>\<open>JSON.parse\<close>, \<open>None\<close> when it throws. Both are caught by the one \<^verbatim>\<open>try\<close>.
\<close>

definition loadProfiles ::
  "(string \<Rightarrow> Profile list option) \<Rightarrow> (string \<Rightarrow> string option promise) \<Rightarrow>
   CameraSettingsState \<Rightarrow> CameraSettingsState" where
  "loadProfiles JSON_parse getItem st =
     (case getItem ''camera_profiles'' of
        Rejected error \<Rightarrow> st\<lparr>console := console st @ [''Error loading profiles:'']\<rparr>
      | Resolved stored \<Rightarrow>
          (case stored of
             None \<Rightarrow> st
           | Some text \<Rightarrow>
               if text = [] then st
               else
                 (case JSON_parse text of
                    None \<Rightarrow> st\<lparr>console := console st @ [''Error loading profiles:'']\<rparr>
                  | Some parsed \<Rightarrow> st\<lparr>profiles := parsed\<rparr>)))"

text \<open>
  \<^verbatim>\<open>profileName.trim()\<close>: white space and line terminators are dropped at both ends.
  These are the code units that ECMAScript names: tab, line feed, vertical tab, form
  feed, carriage return, space, no-break space, the Unicode space separators, the line
  and paragraph separators, and the byte order mark.
\<close>

definition is_js_space :: "nat \<Rightarrow> bool" where
  "is_js_space u =
     (u \<in> set [0x0009, 0x000A, 0x000B, 0x000C, 0x000D, 0x0020, 0x00A0, 0x1680,
               0x2000, 0x2001, 0x2002, 0x2003, 0x2004, 0x2005, 0x2006, 0x2007,
               0x2008, 0x2009, 0x200A, 0x2028, 0x2029, 0x202F, 0x205F, 0x3000, 0xFEFF])"

definition js_trim :: "js_string \<Rightarrow> js_string" where
  "js_trim s = rev (dropWhile is_js_space (rev (dropWhile is_js_space s)))"

text \<open>
  \<^verbatim>\<open>saveProfile\<close>, lines 67 to 88. \<open>now\<close> is \<^verbatim>\<open>Date.now()\<close>, \<open>setItem\<close> is
  \<^verbatim>\<open>AsyncStorage.setItem\<close>, \<open>JSON_stringify\<close> is \<^verbatim>\<open>JSON.stringify\<close>. There is no \<^verbatim>\<open>try\<close>:
  the result is the component state after the call, with the settlement of the promise
  that \<^verbatim>\<open>saveProfile\<close> returns.
\<close>

definition saveProfile ::
  "nat \<Rightarrow> (Profile list \<Rightarrow> string) \<Rightarrow> (string \<Rightarrow> string \<Rightarrow> unit promise) \<Rightarrow>
   AppSettings \<Rightarrow> CameraSettingsState \<Rightarrow> CameraSettingsState \<times> unit promise" where
  "saveProfile now JSON_stringify setItem settings st =
     (if js_trim (profileName st) = [] then
        (st\<lparr>alerts := alerts st @ [(''Error'', ''Please enter a profile name'')]\<rparr>, Resolved ())
      else
        let newProfile =
              \<lparr>Profile.id = showNat now,
               Profile.name = profileName st,
               Profile.focalLength = focalLength settings,
               Profile.pinholeSize = pinholeSize settings,
               Profile.filmFormat = filmFormat settings,
               Profile.filmOrientation =
                 (case filmOrientation settings of None \<Rightarrow> landscape | Some v \<Rightarrow> v),
               Profile.iso = iso settings\<rparr>;
            updatedProfiles = profiles st @ [newProfile];
            st1 = st\<lparr>profiles := updatedProfiles\<rparr>
        in case setItem ''camera_profiles'' (JSON_stringify updatedProfiles) of
             Rejected error \<Rightarrow> (st1, Rejected error)
           | Resolved u \<Rightarrow>
               (st1\<lparr>profileName := [],
                    alerts := alerts st1 @ [(''Success'', ''Profile saved!'')]\<rparr>,
                Resolved ()))"

section \<open>Sample inputs\<close>

text \<open>
  A small catalogue and four settings records, used to run the theorems below on concrete
  inputs. The program's own catalogue lives in \<^verbatim>\<open>../types\<close>. Every number is a double.
  In \<open>tie_settings\<close> the f-stop \<open>3 / 20\<close> lies next to a tie of the one-decimal rendering;
  in \<open>iso49_settings\<close> the product \<open>(1 / 49) * 49\<close> is rounded below one.
\<close>

definition sample_conditions :: "LightingCondition list" where
  "sample_conditions =
     [\<lparr>LightingCondition.name = ''Sunny'', fStop = 16\<rparr>,
      \<lparr>LightingCondition.name = ''Overcast'', fStop = 8\<rparr>]"

definition sample_settings :: AppSettings where
  "sample_settings =
     \<lparr>focalLength = 48, pinholeSize = 0.25,
      filmFormat = \<lparr>width = 6, height = 9, filmFormat.name = ''6x9''\<rparr>,
      filmOrientation = Some portrait, iso = 64, selectedCondition = Some ''Sunny'',
      bracketStops = 0, useReciprocityFailure = True, useRedFilter = False\<rparr>"

definition unit_settings :: AppSettings where
  "unit_settings =
     \<lparr>focalLength = 16, pinholeSize = 1,
      filmFormat = \<lparr>width = 6, height = 9, filmFormat.name = ''6x9''\<rparr>,
      filmOrientation = None, iso = 1, selectedCondition = Some ''Sunny'',
      bracketStops = 0, useReciprocityFailure = True, useRedFilter = False\<rparr>"

definition tie_settings :: AppSettings where
  "tie_settings =
     \<lparr>focalLength = 3, pinholeSize = 20,
      filmFormat = \<lparr>width = 6, height = 9, filmFormat.name = ''6x9''\<rparr>,
      filmOrientation = None, iso = 100, selectedCondition = Some ''Sunny'',
      bracketStops = 0, useReciprocityFailure = False, useRedFilter = False\<rparr>"

definition iso49_settings :: AppSettings where
  "iso49_settings =
     \<lparr>focalLength = 112, pinholeSize = 1,
      filmFormat = \<lparr>width = 6, height = 9, filmFormat.name = ''6x9''\<rparr>,
      filmOrientation = None, iso = 49, selectedCondition = Some ''Sunny'',
      bracketStops = 0, useReciprocityFailure = False, useRedFilter = False\<rparr>"

text \<open>
  A state of the camera settings screen that already holds one profile, with the name
  \<^verbatim>\<open>Box\<close> typed in; the same state with a name of a no-break space and a space; a storage
  whose reads and writes fail; and stand-ins for \<^verbatim>\<open>JSON.parse\<close> and \<^verbatim>\<open>JSON.stringify\<close>.
\<close>

definition stored_profile :: Profile where
  "stored_profile =
     \<lparr>Profile.id = ''7'', Profile.name = [0x46, 0x69, 0x65, 0x6C, 0x64],
      Profile.focalLength = 75, Profile.pinholeSize = 0.5,
      Profile.filmFormat = \<lparr>width = 4, height = 5, filmFormat.name = ''4x5''\<rparr>,
      Profile.filmOrientation = landscape, Profile.iso = 400\<rparr>"

definition sample_state :: CameraSettingsState where
  "sample_state =
     \<lparr>profiles = [stored_profile], profileName = [0x42, 0x6F, 0x78], console = [],
      alerts = []\<rparr>"

definition blank_name_state :: CameraSettingsState where
  "blank_name_state = sample_state\<lparr>profileName := [0x00A0, 0x0020]\<rparr>"

definition failing_getItem :: "string \<Rightarrow> string option promise" where
  "failing_getItem key = Rejected ''read failed''"

definition failing_setItem :: "string \<Rightarrow> string \<Rightarrow> unit promise" where
  "failing_setItem key text = Rejected ''write failed''"

definition sample_parse :: "string \<Rightarrow> Profile list option" where
  "sample_parse text = None"

definition sample_stringify :: "Profile list \<Rightarrow> string" where
  "sample_stringify ps = concat (map Profile.id ps)"

section \<open>Doubles\<close>

text \<open>
  The rules that evaluate \<open>dbl\<close> at a number given by its digits, a few signs, and the
  doubles that the sample inputs run through.
\<close>

lemmas dbl_eval =
  dbl_def binexp_def round_to_def bexp_up.simps bexp_down.simps pow2_def round_even_def

lemma pow2_pos: "0 < pow2 e"
  by (simp add: pow2_def)

lemma round_even_nonneg:
  assumes "0 \<le> x"
  shows "0 \<le> round_even x"
proof -
  have "0 \<le> \<lfloor>x\<rfloor>" using assms by simp
  then show ?thesis by (simp add: round_even_def)
qed

lemma dbl_nonneg:
  assumes "0 \<le> x"
  shows "0 \<le> dbl x"
proof (cases "x = 0")
  case True
  then show ?thesis by (simp add: dbl_def)
next
  case False
  with assms have x: "0 < x" by simp
  have "0 \<le> x / pow2 (binexp x - 52)" using x pow2_pos [of "binexp x - 52"] by simp
  then have "0 \<le> round_even (x / pow2 (binexp x - 52))" by (rule round_even_nonneg)
  then have "0 \<le> round_to (pow2 (binexp x - 52)) x"
    using pow2_pos [of "binexp x - 52"] by (simp add: round_to_def)
  with x show ?thesis by (simp add: dbl_def)
qed

lemma dbl_values:
  "dbl (1) = 1"
  "dbl (2) = 2"
  "dbl (4) = 4"
  "dbl (7) = 7"
  "dbl (12) = 12"
  "dbl (16) = 16"
  "dbl (49) = 49"
  "dbl (112) = 112"
  "dbl (144) = 144"
  "dbl (192) = 192"
  "dbl (1 / 64) = 1 / 64"
  "dbl (9 / 4) = 9 / 4"
  "dbl (5 / 4) = 5 / 4"
  "dbl (3 / 20) = 5404319552844595 / 36028797018963968"
  "dbl (1 / 10) = 3602879701896397 / 36028797018963968"
  "dbl (3602879701896397 / 576460752303423488) = 3602879701896397 / 576460752303423488"
  "dbl (12980742146337070512478121581609 / 332306998946228968225951765070086144) = 1441151880758559 / 36893488147419103232"
  "dbl (1 / 100) = 5764607523034235 / 576460752303423488"
  "dbl (8307674973655725992677126267365 / 21267647932558653966460912964485513216) = 3689348814741911 / 9444732965739290427392"
  "dbl (9444732965739290427392 / 3689348814741911) = 5497558138879999 / 2147483648"
  "dbl (1 / 49) = 5882252574524729 / 288230376151711744"
  "dbl (288230376151711721 / 288230376151711744) = 9007199254740991 / 9007199254740992"
  "dbl (9007199254740992 / 9007199254740991) = 4503599627370497 / 4503599627370496"
  "dbl (23 / 10) = 2589569785738035 / 1125899906842624"
  "dbl (3 / 5) = 5404319552844595 / 9007199254740992"
  "dbl (9007199254740992 / 5404319552844595) = 7505999378950827 / 4503599627370496"
  "dbl (2 / 5) = 3602879701896397 / 9007199254740992"
  "dbl (9007199254740992 / 3602879701896397) = 5 / 2"
  "dbl (181 / 120) = 3396464718975249 / 2251799813685248"
  "dbl (10 / 3) = 7505999378950827 / 2251799813685248"
  by (simp_all add: dbl_eval)


section \<open>Decimal rendering and parsing\<close>

text \<open>
  Printing a number with one decimal and parsing the text again gives the double nearest
  to the number rounded to tenths: the digits printed are the digits read.
\<close>

lemma digit_char_props:
  assumes "d < 10"
  shows "is_digit (digit_char d)" and "digit_val (digit_char d) = d"
proof -
  from assms have "d \<in> {0, 1, 2, 3, 4, 5, 6, 7, 8, 9}" by auto
  then show "is_digit (digit_char d)" and "digit_val (digit_char d) = d"
    by (auto simp: digit_char_def is_digit_def digit_val_def)
qed

lemma showNat_digits: "\<forall>c \<in> set (showNat n). is_digit c"
proof (induction n rule: showNat.induct)
  case (1 n)
  show ?case
  proof (cases "n < 10")
    case True
    then show ?thesis by (simp add: showNat.simps [of n] digit_char_props)
  next
    case False
    with 1 show ?thesis by (simp add: showNat.simps [of n] digit_char_props)
  qed
qed

lemma showNat_not_Nil: "showNat n \<noteq> []"
  by (subst showNat.simps) simp

lemma digits_val_snoc: "digits_val (ds @ [c]) = 10 * digits_val ds + digit_val c"
  by (simp add: digits_val_def)

lemma digits_val_showNat: "digits_val (showNat n) = n"
proof (induction n rule: showNat.induct)
  case (1 n)
  show ?case
  proof (cases "n < 10")
    case True
    then show ?thesis by (simp add: showNat.simps [of n] digits_val_def digit_char_props)
  next
    case False
    with 1 show ?thesis
      by (simp add: showNat.simps [of n] digits_val_snoc digit_char_props)
  qed
qed

lemma showNat_one_digit: "n < 10 \<Longrightarrow> showNat n = [digit_char n]"
  by (subst showNat.simps) simp

lemma takeWhile_digits:
  assumes "\<forall>c \<in> set ds. is_digit c" and "\<not> is_digit x"
  shows "takeWhile is_digit (ds @ x # rest) = ds" and "dropWhile is_digit (ds @ x # rest) = x # rest"
  using assms by (simp_all add: takeWhile_append2 dropWhile_append2)

lemma takeWhile_all_digits:
  "\<forall>c \<in> set ds. is_digit c \<Longrightarrow> takeWhile is_digit ds = ds"
  by (simp add: takeWhile_eq_all_conv)

lemma parse_digits_point_digits:
  assumes a: "\<forall>c \<in> set as. is_digit c" and b: "\<forall>c \<in> set bs. is_digit c" and ne: "as \<noteq> []"
  shows "parseFloat (as @ ''.'' @ bs) =
           Some (dbl (real (digits_val as) + real (digits_val bs) / 10 ^ length bs))"
    and "parseFloat (''-'' @ as @ ''.'' @ bs) =
           Some (- dbl (real (digits_val as) + real (digits_val bs) / 10 ^ length bs))"
proof -
  have nd: "\<not> is_digit CHR ''.''" by (simp add: is_digit_def)
  have h: "is_digit (hd as)" using a ne by (cases as) auto
  then have ns: "\<not> is_space (hd as)" and nm: "hd as \<noteq> CHR ''-''" and np: "hd as \<noteq> CHR ''+''"
    by (auto simp: is_digit_def is_space_def)
  have dw: "dropWhile is_space (as @ ''.'' @ bs) = as @ ''.'' @ bs"
    using ns ne by (cases as) auto
  have tk: "takeWhile is_digit (as @ CHR ''.'' # bs) = as"
    "dropWhile is_digit (as @ CHR ''.'' # bs) = CHR ''.'' # bs"
    using takeWhile_digits [OF a nd] by auto
  have hd1: "hd (as @ CHR ''.'' # bs) = hd as" using ne by simp
  show "parseFloat (as @ ''.'' @ bs) =
          Some (dbl (real (digits_val as) + real (digits_val bs) / 10 ^ length bs))"
    using ne nm np b
    by (simp add: parseFloat_def Let_def dw [simplified] tk hd1 takeWhile_all_digits)
  have sp: "\<not> is_space CHR ''-''" by (simp add: is_space_def)
  show "parseFloat (''-'' @ as @ ''.'' @ bs) =
          Some (- dbl (real (digits_val as) + real (digits_val bs) / 10 ^ length bs))"
    using ne b sp
    by (simp add: parseFloat_def Let_def tk takeWhile_all_digits)
qed

lemma parseFloat_toFixed1:
  "parseFloat (toFixed1 x) =
     Some ((if x < 0 then - 1 else 1) * dbl (of_int \<lfloor>\<bar>x\<bar> * 10 + 1 / 2\<rfloor> / 10))"
proof -
  define n where "n = nat \<lfloor>\<bar>x\<bar> * 10 + 1 / 2\<rfloor>"
  have nn: "0 \<le> \<lfloor>\<bar>x\<bar> * 10 + 1 / 2\<rfloor>" by simp
  have val: "real (n div 10) + real (n mod 10) / 10 = real n / 10"
  proof -
    have "real n = real (10 * (n div 10) + n mod 10)" by simp
    also have "\<dots> = 10 * real (n div 10) + real (n mod 10)"
      by (simp only: of_nat_add of_nat_mult of_nat_numeral)
    finally show ?thesis by simp
  qed
  have rn: "real n = of_int \<lfloor>\<bar>x\<bar> * 10 + 1 / 2\<rfloor>" unfolding n_def using nn by simp
  have len: "length (showNat (n mod 10)) = 1" by (simp add: showNat_one_digit)
  have tf: "toFixed1 x = (if x < 0 then ''-'' else []) @ showNat (n div 10) @ ''.'' @ showNat (n mod 10)"
    unfolding toFixed1_def Let_def n_def by (rule refl)
  have p1: "parseFloat (showNat (n div 10) @ ''.'' @ showNat (n mod 10)) = Some (dbl (real n / 10))"
    using parse_digits_point_digits(1)
      [OF showNat_digits showNat_digits showNat_not_Nil, of "n div 10" "n mod 10"]
    by (simp add: digits_val_showNat len val)
  have p2: "parseFloat (''-'' @ showNat (n div 10) @ ''.'' @ showNat (n mod 10)) =
              Some (- dbl (real n / 10))"
    using parse_digits_point_digits(2)
      [OF showNat_digits showNat_digits showNat_not_Nil, of "n div 10" "n mod 10"]
    by (simp add: digits_val_showNat len val)
  show ?thesis
  proof (cases "x < 0")
    case True
    then have "parseFloat (toFixed1 x) = Some (- dbl (real n / 10))"
      using p2 by (simp only: tf if_True)
    then show ?thesis using True by (simp only: rn if_True) simp
  next
    case False
    then have "parseFloat (toFixed1 x) = Some (dbl (real n / 10))"
      using p1 by (simp only: tf if_False append_Nil)
    then show ?thesis using False by (simp only: rn if_False) simp
  qed
qed

lemma parseFloat_toFixed1_nonneg:
  assumes "0 \<le> x"
  shows "parseFloat (toFixed1 x) = Some (dbl (of_int \<lfloor>x * 10 + 1 / 2\<rfloor> / 10))"
proof -
  have "\<not> x < 0" and "\<bar>x\<bar> = x" using assms by simp_all
  then show ?thesis by (simp only: parseFloat_toFixed1 if_False mult_1)
qed

section \<open>The exposure time of a matched condition\<close>

lemma calculateFStop_parse:
  assumes "pinholeSize s \<noteq> 0"
  shows "parseFloat (calculateFStop s) =
     Some ((if dbl (focalLength s / pinholeSize s) < 0 then - 1 else 1) *
           dbl (of_int \<lfloor>\<bar>dbl (focalLength s / pinholeSize s)\<bar> * 10 + 1 / 2\<rfloor> / 10))"
  using assms by (simp only: calculateFStop_def if_False parseFloat_toFixed1)

lemma calculateFStop_other_fields [simp]:
  "calculateFStop (s\<lparr>bracketStops := b\<rparr>) = calculateFStop s"
  "calculateFStop (s\<lparr>useRedFilter := r\<rparr>) = calculateFStop s"
  "calculateFStop (s\<lparr>useReciprocityFailure := f\<rparr>) = calculateFStop s"
  by (simp_all add: calculateFStop_def)

lemma exposureTime_matched:
  assumes "selectedCondition s = Some n" and "n \<noteq> []"
    and "find (\<lambda>c. LightingCondition.name c = n) L = Some c"
    and "parseFloat (calculateFStop s) = Some a"
    and "iso s \<noteq> 0" and "fStop c \<noteq> 0"
  shows "exposureTime L s =
     Result ((if useRedFilter s then 8 else 1) *
             (if useReciprocityFailure s \<and>
                 1 < dbl (dbl (1 / iso s) * dbl (dbl (a / fStop c) * dbl (a / fStop c)))
              then dbl (dbl (1 / iso s) * dbl (dbl (a / fStop c) * dbl (a / fStop c))) powr 1.3
              else dbl (dbl (1 / iso s) * dbl (dbl (a / fStop c) * dbl (a / fStop c)))) *
             2 powr bracketStops s)"
  using assms by (simp add: exposureTime_def Let_def)

lemma exposureTime_unmatched:
  "exposureTime L s = Null \<longleftrightarrow>
     (case selectedCondition s of
        None \<Rightarrow> True
      | Some n \<Rightarrow> n = [] \<or> find (\<lambda>c. LightingCondition.name c = n) L = None)"
  by (simp add: exposureTime_def Let_def split: option.splits)

lemma calculateExposure_Null_iff: "calculateExposure L s = Null \<longleftrightarrow> exposureTime L s = Null"
  by (simp add: calculateExposure_def split: outcome.splits)

text \<open>The f-stop and the exposure time of the four sample settings.\<close>

lemma sample_fstops:
  "calculateFStop sample_settings = ''192.0''"
  "calculateFStop unit_settings = ''16.0''"
  "calculateFStop tie_settings = ''0.1''"
  "calculateFStop iso49_settings = ''112.0''"
  by (simp_all add: calculateFStop_def sample_settings_def unit_settings_def tie_settings_def
      iso49_settings_def dbl_values toFixed1_def showNat.simps digit_char_def)

lemma sample_parses:
  "parseFloat ''192.0'' = Some 192"
  "parseFloat ''16.0'' = Some 16"
  "parseFloat ''0.1'' = Some (3602879701896397 / 36028797018963968)"
  "parseFloat ''112.0'' = Some 112"
  by (simp_all add: parseFloat_def is_space_def is_digit_def digits_val_def digit_val_def
      dbl_values)

lemma sample_actual_fstops:
  "parseFloat (calculateFStop sample_settings) = Some 192"
  "parseFloat (calculateFStop unit_settings) = Some 16"
  "parseFloat (calculateFStop tie_settings) = Some (3602879701896397 / 36028797018963968)"
  "parseFloat (calculateFStop iso49_settings) = Some 112"
  by (simp_all only: sample_fstops sample_parses)

lemma sample_times:
  "exposureTime sample_conditions sample_settings = Result ((9 / 4) powr 1.3)"
  "exposureTime sample_conditions (sample_settings\<lparr>useReciprocityFailure := False\<rparr>) =
     Result (9 / 4)"
  "exposureTime sample_conditions unit_settings = Result 1"
  "exposureTime sample_conditions tie_settings = Result (3689348814741911 / 9444732965739290427392)"
  "exposureTime sample_conditions iso49_settings = Result (9007199254740991 / 9007199254740992)"
proof -
  note m = exposureTime_matched
    [where L = sample_conditions and n = "''Sunny''"
       and c = "\<lparr>LightingCondition.name = ''Sunny'', fStop = 16\<rparr>"]
  show "exposureTime sample_conditions sample_settings = Result ((9 / 4) powr 1.3)"
    using m [where s = sample_settings and a = 192] sample_actual_fstops(1)
    by (simp add: sample_conditions_def sample_settings_def dbl_values)
  have off: "parseFloat (calculateFStop (sample_settings\<lparr>useReciprocityFailure := False\<rparr>)) =
               Some 192"
    using sample_actual_fstops(1) by simp
  show "exposureTime sample_conditions (sample_settings\<lparr>useReciprocityFailure := False\<rparr>) =
     Result (9 / 4)"
    using m [where s = "sample_settings\<lparr>useReciprocityFailure := False\<rparr>" and a = 192,
             OF _ _ _ off]
    by (simp add: sample_conditions_def sample_settings_def dbl_values)
  show "exposureTime sample_conditions unit_settings = Result 1"
    using m [where s = unit_settings and a = 16] sample_actual_fstops(2)
    by (simp add: sample_conditions_def unit_settings_def dbl_values)
  show "exposureTime sample_conditions tie_settings = Result (3689348814741911 / 9444732965739290427392)"
    using m [where s = tie_settings and a = "3602879701896397 / 36028797018963968"] sample_actual_fstops(3)
    by (simp add: sample_conditions_def tie_settings_def dbl_values)
  show "exposureTime sample_conditions iso49_settings = Result (9007199254740991 / 9007199254740992)"
    using m [where s = iso49_settings and a = 112] sample_actual_fstops(4)
    by (simp add: sample_conditions_def iso49_settings_def dbl_values)
qed

section \<open>Claims about the exposure model\<close>

text \<open>
  C9. \<^verbatim>\<open>calculateExposure\<close> returns \<open>null\<close>, and raises nothing, whenever
  \<open>selectedCondition\<close> is absent or is the name of no entry of the catalogue; an exposure
  is computed only when the look-up by exact name finds an entry.
\<close>

theorem calculateExposure_null_without_match:
  "(selectedCondition s = None \<longrightarrow> calculateExposure L s = Null) \<and>
   (\<forall>n. selectedCondition s = Some n \<and> (\<forall>c \<in> set L. LightingCondition.name c \<noteq> n)
        \<longrightarrow> calculateExposure L s = Null) \<and>
   (calculateExposure L s \<noteq> Null \<longrightarrow>
      (\<exists>n c. selectedCondition s = Some n \<and> c \<in> set L \<and> LightingCondition.name c = n \<and>
             find (\<lambda>c. LightingCondition.name c = n) L = Some c))"
proof (intro conjI impI allI)
  assume "selectedCondition s = None"
  then show "calculateExposure L s = Null"
    by (simp add: calculateExposure_Null_iff exposureTime_unmatched)
next
  fix n
  assume h: "selectedCondition s = Some n \<and> (\<forall>c \<in> set L. LightingCondition.name c \<noteq> n)"
  then have "find (\<lambda>c. LightingCondition.name c = n) L = None"
    by (simp add: find_None_iff)
  with h show "calculateExposure L s = Null"
    by (simp add: calculateExposure_Null_iff exposureTime_unmatched)
next
  assume "calculateExposure L s \<noteq> Null"
  then have ne: "exposureTime L s \<noteq> Null" by (simp add: calculateExposure_Null_iff)
  then obtain n where n: "selectedCondition s = Some n"
    and f: "find (\<lambda>c. LightingCondition.name c = n) L \<noteq> None"
    by (auto simp: exposureTime_unmatched split: option.splits)
  from f obtain c where c: "find (\<lambda>c. LightingCondition.name c = n) L = Some c" by auto
  then have "c \<in> set L \<and> LightingCondition.name c = n"
    by (auto simp: find_Some_iff)
  with n c show "\<exists>n c. selectedCondition s = Some n \<and> c \<in> set L \<and> LightingCondition.name c = n \<and>
             find (\<lambda>c. LightingCondition.name c = n) L = Some c" by blast
qed

theorem calculateExposure_null_without_match_witness:
  "calculateExposure sample_conditions (sample_settings\<lparr>selectedCondition := None\<rparr>) = Null \<and>
   calculateExposure sample_conditions (sample_settings\<lparr>selectedCondition := Some ''Moonlight''\<rparr>) = Null"
  using calculateExposure_null_without_match
          [of "sample_settings\<lparr>selectedCondition := None\<rparr>" sample_conditions]
        calculateExposure_null_without_match
          [of "sample_settings\<lparr>selectedCondition := Some ''Moonlight''\<rparr>" sample_conditions]
  by (simp add: sample_conditions_def)




text \<open>
  C8. For a matched lighting condition, the exposure time before formatting with the red
  filter on is exactly eight times the one with the red filter off, every other field
  equal, whatever \<open>useReciprocityFailure\<close> and \<open>bracketStops\<close> are.
\<close>

theorem red_filter_times_eight:
  assumes "selectedCondition s = Some n" and "n \<noteq> []"
    and "find (\<lambda>c. LightingCondition.name c = n) L = Some c"
    and "pinholeSize s \<noteq> 0" and "iso s \<noteq> 0" and "fStop c \<noteq> 0"
  shows "\<exists>t. exposureTime L (s\<lparr>useRedFilter := False\<rparr>) = Result t \<and>
             exposureTime L (s\<lparr>useRedFilter := True\<rparr>) = Result (8 * t)"
proof -
  obtain a where a: "parseFloat (calculateFStop s) = Some a"
    using calculateFStop_parse [OF assms(4)] by blast
  have a0: "parseFloat (calculateFStop (s\<lparr>useRedFilter := False\<rparr>)) = Some a"
    and a1: "parseFloat (calculateFStop (s\<lparr>useRedFilter := True\<rparr>)) = Some a"
    using a by simp_all
  show ?thesis
    using exposureTime_matched [of "s\<lparr>useRedFilter := False\<rparr>" n L c a]
      exposureTime_matched [of "s\<lparr>useRedFilter := True\<rparr>" n L c a] assms a0 a1
    by simp
qed

theorem red_filter_times_eight_witness:
  "exposureTime sample_conditions (unit_settings\<lparr>useRedFilter := False\<rparr>) = Result 1 \<and>
   exposureTime sample_conditions (unit_settings\<lparr>useRedFilter := True\<rparr>) = Result 8"
proof -
  have u: "unit_settings\<lparr>useRedFilter := False\<rparr> = unit_settings"
    by (simp add: unit_settings_def)
  have e: "exposureTime sample_conditions (unit_settings\<lparr>useRedFilter := False\<rparr>) = Result 1"
    by (simp only: u sample_times)
  from red_filter_times_eight
         [of unit_settings "''Sunny''" sample_conditions
             "\<lparr>LightingCondition.name = ''Sunny'', fStop = 16\<rparr>"]
  have "\<exists>t. exposureTime sample_conditions (unit_settings\<lparr>useRedFilter := False\<rparr>) = Result t \<and>
             exposureTime sample_conditions (unit_settings\<lparr>useRedFilter := True\<rparr>) = Result (8 * t)"
    by (simp add: sample_conditions_def unit_settings_def)
  with e show ?thesis by auto
qed



text \<open>
  C10. The three viewfinder screens agree on the exposure computation: their
  \<^verbatim>\<open>calculateFStop\<close>, \<^verbatim>\<open>formatExposure\<close> and \<^verbatim>\<open>calculateExposure\<close> return the same
  result on the same input (and the same catalogue).
\<close>

theorem variants_agree:
  "calculateFStop_002 s = calculateFStop s \<and> calculateFStop_003 s = calculateFStop s \<and>
   formatExposure_002 t = formatExposure t \<and> formatExposure_003 t = formatExposure t \<and>
   calculateExposure_002 L s = calculateExposure L s \<and>
   calculateExposure_003 L s = calculateExposure L s"
proof -
  have f2: "calculateFStop_002 = calculateFStop"
    by (rule ext) (simp add: calculateFStop_002_def calculateFStop_def)
  have f3: "calculateFStop_003 = calculateFStop"
    by (rule ext) (simp add: calculateFStop_003_def calculateFStop_def)
  have g2: "formatExposure_002 = formatExposure"
    by (rule ext) (simp add: formatExposure_002_def formatExposure_def)
  have g3: "formatExposure_003 = formatExposure"
    by (rule ext) (simp add: formatExposure_003_def formatExposure_def)
  have e2: "exposureTime_002 L s = exposureTime L s"
    unfolding exposureTime_002_def exposureTime_def f2 by (rule refl)
  have e3: "exposureTime_003 L s = exposureTime L s"
    unfolding exposureTime_003_def exposureTime_def f3 by (rule refl)
  show ?thesis
    unfolding calculateExposure_002_def calculateExposure_003_def calculateExposure_def
      f2 f3 g2 g3 e2 e3 by simp
qed

text \<open>
  C1. For positive focal length, pinhole size and ISO and a selected condition that names
  a catalogue entry with reference f-stop \<open>R\<close>, the exposure time before formatting is
  the result of these steps in this order: \<open>t0 = (1/iso) * (a/R)^2\<close>, where \<open>a\<close> is the
  f-stop parsed back from its rendering with one decimal, that is the double nearest to
  the tenth nearest to the double \<open>focalLength / pinholeSize\<close>; \<open>t1 = t0^1.3\<close> if
  \<open>useReciprocityFailure\<close> holds and \<open>t0 > 1\<close>, else \<open>t1 = t0\<close>; \<open>t2 = 8 * t1\<close> if
  \<open>useRedFilter\<close> holds, else \<open>t2 = t1\<close>; \<open>t3 = t2 * 2^bracketStops\<close>; and the text
  displayed is \<open>formatExposure t3\<close>. The quotients and products of \<open>t0\<close> are the doubles
  that JavaScript computes. (The selected name is not empty, an empty name counting as
  absent, and \<open>R\<close> is not zero.)
\<close>

theorem calculateExposure_steps:
  assumes "0 < focalLength s" and "0 < pinholeSize s" and "0 < iso s"
    and "selectedCondition s = Some n" and "n \<noteq> []"
    and "find (\<lambda>c. LightingCondition.name c = n) L = Some c" and "fStop c \<noteq> 0"
  shows "let R = fStop c;
             q = dbl (focalLength s / pinholeSize s);
             a = dbl (of_int \<lfloor>q * 10 + 1 / 2\<rfloor> / 10);
             ratio = dbl (a / R);
             t0 = dbl (dbl (1 / iso s) * dbl (ratio * ratio));
             t1 = (if useReciprocityFailure s \<and> t0 > 1 then t0 powr 1.3 else t0);
             t2 = (if useRedFilter s then 8 * t1 else t1);
             t3 = t2 * 2 powr bracketStops s
         in calculateFStop s = toFixed1 q \<and>
            parseFloat (toFixed1 q) = Some a \<and>
            exposureTime L s = Result t3 \<and>
            calculateExposure L s = Result (formatExposure t3)"
proof -
  define q where "q = dbl (focalLength s / pinholeSize s)"
  define a where "a = dbl (of_int \<lfloor>q * 10 + 1 / 2\<rfloor> / 10)"
  have "0 \<le> focalLength s / pinholeSize s" using assms(1,2) by simp
  then have q: "0 \<le> q" unfolding q_def by (rule dbl_nonneg)
  have fs: "calculateFStop s = toFixed1 q"
    using assms(2) by (simp add: calculateFStop_def q_def)
  have pf: "parseFloat (toFixed1 q) = Some a"
    unfolding a_def using q by (rule parseFloat_toFixed1_nonneg)
  have pc: "parseFloat (calculateFStop s) = Some a"
    using pf by (simp only: fs)
  have i: "iso s \<noteq> 0" using assms(3) by simp
  note e = exposureTime_matched [OF assms(4,5,6) pc i assms(7)]
  show ?thesis
    unfolding Let_def q_def [symmetric] a_def [symmetric]
    apply (intro conjI)
       apply (rule fs)
      apply (rule pf)
     apply (simp add: e)
    apply (simp add: calculateExposure_def e)
    done
qed

theorem calculateExposure_steps_witness:
  "exposureTime sample_conditions sample_settings = Result ((9 / 4) powr 1.3) \<and>
   calculateFStop unit_settings = ''16.0'' \<and>
   calculateExposure sample_conditions unit_settings = Result ''1.0s'' \<and>
   calculateFStop tie_settings = ''0.1'' \<and>
   calculateExposure sample_conditions tie_settings = Result ''1/2560000s'' \<and>
   calculateFStop iso49_settings = ''112.0'' \<and>
   calculateExposure sample_conditions iso49_settings = Result ''1/1s''"
proof -
  note st = calculateExposure_steps
    [where L = sample_conditions and n = "''Sunny''"
       and c = "\<lparr>LightingCondition.name = ''Sunny'', fStop = 16\<rparr>"]
  have a: "exposureTime sample_conditions sample_settings = Result ((9 / 4) powr 1.3)"
    using st [where s = sample_settings]
    by (simp add: sample_conditions_def sample_settings_def Let_def dbl_values)
  have b: "calculateFStop unit_settings = ''16.0'' \<and>
           calculateExposure sample_conditions unit_settings = Result ''1.0s''"
    using st [where s = unit_settings]
    by (simp add: sample_conditions_def unit_settings_def Let_def dbl_values formatExposure_def
        toFixed1_def showNat.simps digit_char_def)
  have c: "calculateFStop tie_settings = ''0.1'' \<and>
           calculateExposure sample_conditions tie_settings = Result ''1/2560000s''"
    using st [where s = tie_settings]
    by (simp add: sample_conditions_def tie_settings_def Let_def dbl_values formatExposure_def
        Math_round_def js_int_str_def toFixed1_def showNat.simps digit_char_def)
  have d: "calculateFStop iso49_settings = ''112.0'' \<and>
           calculateExposure sample_conditions iso49_settings = Result ''1/1s''"
    using st [where s = iso49_settings]
    by (simp add: sample_conditions_def iso49_settings_def Let_def dbl_values formatExposure_def
        Math_round_def js_int_str_def toFixed1_def showNat.simps digit_char_def)
  from a b c d show ?thesis by simp
qed



section \<open>Claims about the viewfinder geometry\<close>

lemma getEffectiveDimensions_variants:
  "getEffectiveDimensions_002 s = getEffectiveDimensions s"
  "getEffectiveDimensions_003 s = getEffectiveDimensions s"
  by (simp_all add: getEffectiveDimensions_002_def getEffectiveDimensions_003_def
      getEffectiveDimensions_def)

lemma effective_ratio_pos:
  assumes "0 < width (filmFormat s)" and "0 < height (filmFormat s)"
  shows "0 < height (getEffectiveDimensions s)"
    and "0 < width (getEffectiveDimensions s)"
    and "0 < width (getEffectiveDimensions s) / height (getEffectiveDimensions s)"
  using assms by (simp_all add: getEffectiveDimensions_def Let_def)


lemma landscape_branch:
  fixes r :: real
  assumes "r \<noteq> 0"
  shows "(if h * r > B
          then (if r = 0 then NonFinite else Result \<lparr>width = B, height = B / r\<rparr>)
          else Result \<lparr>width = h * r, height = h\<rparr>)
         = Result (spec_fit h B r)"
  using assms by (simp add: spec_fit_def Let_def)

lemma portrait_branch:
  fixes r :: real
  assumes "r \<noteq> 0"
  shows "(if r = 0 then NonFinite
          else if w / r > A then Result \<lparr>width = A * r, height = A\<rparr>
               else Result \<lparr>width = w, height = w / r\<rparr>)
         = Result (width_first_fit w A r)"
  using assms by (simp add: width_first_fit_def Let_def)

text \<open>
  For a positive ratio the two ways of fitting return the same rectangle when the
  candidate of the one is the budget of the other.
\<close>

lemma width_first_is_height_first:
  fixes r :: real
  assumes "0 < r"
  shows "width_first_fit w A r = spec_fit A w r"
proof -
  have c: "w / r > A \<longleftrightarrow> w > A * r" using assms by (simp add: field_simps)
  show ?thesis
  proof (cases "w > A * r")
    case True
    then show ?thesis using c by (simp add: spec_fit_def width_first_fit_def Let_def)
  next
    case False
    show ?thesis
    proof (cases "A * r > w")
      case True
      then show ?thesis using False c by (simp add: spec_fit_def width_first_fit_def Let_def)
    next
      case f2: False
      with False have "w = A * r" by simp
      then show ?thesis using assms by (simp add: spec_fit_def width_first_fit_def Let_def)
    qed
  qed
qed

text \<open>
  C3, as stated, fails in the device-portrait branches. There the code does not start
  from a candidate height: it takes the candidate width \<open>0.95 \<times> availableWidth\<close> and clamps
  the height. No fixed fraction of the available height as candidate height, with the
  available width as width budget, gives the rectangles returned: the window \<open>400 \<times> 800\<close>
  would need the fraction \<open>437/750\<close>, with which the window \<open>400 \<times> 400\<close> would get
  \<open>174.8 \<times> 116.5\<close>, where the code returns \<open>300 \<times> 200\<close>.
\<close>

theorem viewfinder_portrait_counterexample:
  "calculateViewfinderSize \<lparr>width = 400, height = 800\<rparr> sample_settings =
     Result \<lparr>width = 1748 / 5, height = 3496 / 15\<rparr> \<and>
   calculateViewfinderSize \<lparr>width = 400, height = 400\<rparr> sample_settings =
     Result \<lparr>width = 300, height = 200\<rparr> \<and>
   availableSpace \<lparr>width = 400, height = 800\<rparr> = \<lparr>width = 368, height = 400\<rparr> \<and>
   availableSpace \<lparr>width = 400, height = 400\<rparr> = \<lparr>width = 368, height = 200\<rparr> \<and>
   calculateViewfinderSize \<lparr>width = 400, height = 800\<rparr> sample_settings \<noteq>
     Result (spec_fit 400 368 (9 / 6)) \<and>
   \<not> (\<exists>f. calculateViewfinderSize \<lparr>width = 400, height = 800\<rparr> sample_settings =
             Result (spec_fit (f * height (availableSpace \<lparr>width = 400, height = 800\<rparr>))
                       (width (availableSpace \<lparr>width = 400, height = 800\<rparr>)) (9 / 6)) \<and>
           calculateViewfinderSize \<lparr>width = 400, height = 400\<rparr> sample_settings =
             Result (spec_fit (f * height (availableSpace \<lparr>width = 400, height = 400\<rparr>))
                       (width (availableSpace \<lparr>width = 400, height = 400\<rparr>)) (9 / 6)))"
proof -
  have r1: "calculateViewfinderSize \<lparr>width = 400, height = 800\<rparr> sample_settings =
     Result \<lparr>width = 1748 / 5, height = 3496 / 15\<rparr>"
    by (simp add: calculateViewfinderSize_def isDeviceLandscape_def getEffectiveDimensions_def
        sample_settings_def Let_def)
  have r2: "calculateViewfinderSize \<lparr>width = 400, height = 400\<rparr> sample_settings =
     Result \<lparr>width = 300, height = 200\<rparr>"
    by (simp add: calculateViewfinderSize_def isDeviceLandscape_def getEffectiveDimensions_def
        sample_settings_def Let_def)
  have a1: "availableSpace \<lparr>width = 400, height = 800\<rparr> = \<lparr>width = 368, height = 400\<rparr>"
    by (simp add: availableSpace_def isDeviceLandscape_def)
  have a2: "availableSpace \<lparr>width = 400, height = 400\<rparr> = \<lparr>width = 368, height = 200\<rparr>"
    by (simp add: availableSpace_def isDeviceLandscape_def)
  have n1: "calculateViewfinderSize \<lparr>width = 400, height = 800\<rparr> sample_settings \<noteq>
     Result (spec_fit 400 368 (9 / 6))"
    by (simp add: r1 spec_fit_def Let_def)
  have n2: "\<not> (\<lparr>width = 1748 / 5, height = 3496 / 15\<rparr> = spec_fit (f * 400) 368 (3 / 2) \<and>
               \<lparr>width = 300, height = 200\<rparr> = spec_fit (f * 200) 368 (3 / 2))" for f :: real
  proof
    assume h: "\<lparr>width = 1748 / 5, height = 3496 / 15\<rparr> = spec_fit (f * 400) 368 (3 / 2) \<and>
               \<lparr>width = 300, height = 200 :: real\<rparr> = spec_fit (f * 200) 368 (3 / 2)"
    then have "f = 437 / 750"
      by (auto simp: spec_fit_def Let_def split: if_splits)
    with h show False by (simp add: spec_fit_def Let_def)
  qed
  have n3: "\<not> (\<exists>f. calculateViewfinderSize \<lparr>width = 400, height = 800\<rparr> sample_settings =
             Result (spec_fit (f * height (availableSpace \<lparr>width = 400, height = 800\<rparr>))
                       (width (availableSpace \<lparr>width = 400, height = 800\<rparr>)) (9 / 6)) \<and>
           calculateViewfinderSize \<lparr>width = 400, height = 400\<rparr> sample_settings =
             Result (spec_fit (f * height (availableSpace \<lparr>width = 400, height = 400\<rparr>))
                       (width (availableSpace \<lparr>width = 400, height = 400\<rparr>)) (9 / 6)))"
  proof
    assume "\<exists>f. calculateViewfinderSize \<lparr>width = 400, height = 800\<rparr> sample_settings =
             Result (spec_fit (f * height (availableSpace \<lparr>width = 400, height = 800\<rparr>))
                       (width (availableSpace \<lparr>width = 400, height = 800\<rparr>)) (9 / 6)) \<and>
           calculateViewfinderSize \<lparr>width = 400, height = 400\<rparr> sample_settings =
             Result (spec_fit (f * height (availableSpace \<lparr>width = 400, height = 400\<rparr>))
                       (width (availableSpace \<lparr>width = 400, height = 400\<rparr>)) (9 / 6))"
    then obtain f where
      1: "calculateViewfinderSize \<lparr>width = 400, height = 800\<rparr> sample_settings =
             Result (spec_fit (f * height (availableSpace \<lparr>width = 400, height = 800\<rparr>))
                       (width (availableSpace \<lparr>width = 400, height = 800\<rparr>)) (9 / 6))"
      and 2: "calculateViewfinderSize \<lparr>width = 400, height = 400\<rparr> sample_settings =
             Result (spec_fit (f * height (availableSpace \<lparr>width = 400, height = 400\<rparr>))
                       (width (availableSpace \<lparr>width = 400, height = 400\<rparr>)) (9 / 6))"
      by blast
    from 1 have "\<lparr>width = 1748 / 5, height = 3496 / 15\<rparr> = spec_fit (f * 400) 368 (3 / 2)"
      by (simp add: r1 a1)
    moreover from 2 have "\<lparr>width = 300, height = 200\<rparr> = spec_fit (f * 200) 368 (3 / 2)"
      by (simp add: r2 a2)
    ultimately show False using n2 [of f] by blast
  qed
  from r1 r2 a1 a2 n1 n3 show ?thesis by (intro conjI)
qed

text \<open>
  C3, amended. In each of the three viewfinder screens, for a film format of positive
  width and height: in the device-landscape branch \<^verbatim>\<open>calculateViewfinderSize\<close> follows the
  general algorithm of the specification (a candidate height that is a fixed fraction of
  the screen height less a margin, the candidate width \<open>height \<times> aspect ratio\<close>, and only
  if that exceeds the width budget the width clamped to the budget and the height
  derived again as \<open>width / aspect ratio\<close>); in the device-portrait branch it is the
  mirror image: the candidate width is \<open>95%\<close> of the screen width less a margin, the
  candidate height is \<open>width / aspect ratio\<close>, and only if that exceeds the available
  height (\<open>50%\<close> or \<open>55%\<close> of the screen height) the height is clamped to it and the width
  derived again as \<open>height \<times> aspect ratio\<close>.
\<close>

theorem viewfinder_height_first_or_width_first:
  assumes "0 < width (filmFormat s)" and "0 < height (filmFormat s)"
  shows "let W = width dims; H = height dims;
             e = getEffectiveDimensions s;
             ratio = width e / height e
         in calculateViewfinderSize dims s =
              Result (if W > H then spec_fit ((H - 20) * 0.92) (W * 0.58) ratio
                      else width_first_fit ((W - 32) * 0.95) (H * 0.50) ratio) \<and>
            calculateViewfinderSize_002 dims s =
              Result (if W > H then spec_fit ((H - 200) * 0.85) (W * 0.85) ratio
                      else width_first_fit ((W - 48) * 0.95) (H * 0.55) ratio) \<and>
            calculateViewfinderSize_003 dims s =
              Result (if W > H then spec_fit ((H - 80) * 0.85) (W * 0.56 * 0.9) ratio
                      else width_first_fit ((W - 32) * 0.95) (H * 0.50) ratio)"
proof -
  define r where "r = width (getEffectiveDimensions s) / height (getEffectiveDimensions s)"
  have h: "(height (getEffectiveDimensions s) = 0) = False" and r0: "r \<noteq> 0"
    using effective_ratio_pos [OF assms] by (simp_all add: r_def)
  have m: "calculateViewfinderSize dims s =
              Result (if width dims > height dims
                      then spec_fit ((height dims - 20) * 0.92) (width dims * 0.58) r
                      else width_first_fit ((width dims - 32) * 0.95) (height dims * 0.50) r)"
    unfolding calculateViewfinderSize_def isDeviceLandscape_def Let_def r_def [symmetric]
    by (cases "width dims > height dims")
      (simp_all only: h if_True if_False landscape_branch [OF r0] portrait_branch [OF r0])
  have m2: "calculateViewfinderSize_002 dims s =
              Result (if width dims > height dims
                      then spec_fit ((height dims - 200) * 0.85) (width dims * 0.85) r
                      else width_first_fit ((width dims - 48) * 0.95) (height dims * 0.55) r)"
    unfolding calculateViewfinderSize_002_def getEffectiveDimensions_variants Let_def
      r_def [symmetric]
    by (cases "width dims > height dims")
      (simp_all only: h if_True if_False landscape_branch [OF r0] portrait_branch [OF r0])
  have m3: "calculateViewfinderSize_003 dims s =
              Result (if width dims > height dims
                      then spec_fit ((height dims - 80) * 0.85) (width dims * 0.56 * 0.9) r
                      else width_first_fit ((width dims - 32) * 0.95) (height dims * 0.50) r)"
    unfolding calculateViewfinderSize_003_def getEffectiveDimensions_variants Let_def
      r_def [symmetric]
    by (cases "width dims > height dims")
      (simp_all only: h if_True if_False landscape_branch [OF r0] portrait_branch [OF r0])
  show ?thesis
    unfolding Let_def r_def [symmetric] using m m2 m3 by (intro conjI)
qed

theorem viewfinder_height_first_or_width_first_witness:
  "calculateViewfinderSize \<lparr>width = 400, height = 800\<rparr> sample_settings =
     Result (width_first_fit (1748 / 5) 400 (3 / 2)) \<and>
   width_first_fit (1748 / 5) 400 (3 / 2) = \<lparr>width = 1748 / 5, height = 3496 / 15\<rparr> \<and>
   calculateViewfinderSize \<lparr>width = 400, height = 400\<rparr> sample_settings =
     Result (width_first_fit (1748 / 5) 200 (3 / 2)) \<and>
   width_first_fit (1748 / 5) 200 (3 / 2) = \<lparr>width = 300, height = 200\<rparr> \<and>
   calculateViewfinderSize_002 \<lparr>width = 800, height = 400\<rparr> sample_settings =
     Result \<lparr>width = 255, height = 170\<rparr>"
  using viewfinder_height_first_or_width_first
          [of sample_settings "\<lparr>width = 400, height = 800\<rparr>"]
    viewfinder_height_first_or_width_first [of sample_settings "\<lparr>width = 400, height = 400\<rparr>"]
    viewfinder_height_first_or_width_first [of sample_settings "\<lparr>width = 800, height = 400\<rparr>"]
  by (simp add: sample_settings_def getEffectiveDimensions_def spec_fit_def width_first_fit_def
      Let_def)


lemma calculateViewfinderSize_branches:
  assumes "0 < width (filmFormat s)" and "0 < height (filmFormat s)"
  shows "calculateViewfinderSize dims s =
     Result
      (if width dims > height dims then
         (if (height dims - 20) * 0.92 * (width (getEffectiveDimensions s) / height (getEffectiveDimensions s))
               > width dims * 0.58
          then \<lparr>width = width dims * 0.58,
                 height = width dims * 0.58 / (width (getEffectiveDimensions s) / height (getEffectiveDimensions s))\<rparr>
          else \<lparr>width = (height dims - 20) * 0.92 * (width (getEffectiveDimensions s) / height (getEffectiveDimensions s)),
                 height = (height dims - 20) * 0.92\<rparr>)
       else
         (if (width dims - 32) * 0.95 / (width (getEffectiveDimensions s) / height (getEffectiveDimensions s))
               > height dims * 0.50
          then \<lparr>width = height dims * 0.50 * (width (getEffectiveDimensions s) / height (getEffectiveDimensions s)),
                 height = height dims * 0.50\<rparr>
          else \<lparr>width = (width dims - 32) * 0.95,
                 height = (width dims - 32) * 0.95 / (width (getEffectiveDimensions s) / height (getEffectiveDimensions s))\<rparr>))"
proof -
  have h: "(height (getEffectiveDimensions s) = 0) = False"
    and r0: "(width (getEffectiveDimensions s) / height (getEffectiveDimensions s) = 0) = False"
    using effective_ratio_pos [OF assms] by simp_all
  show ?thesis
    unfolding calculateViewfinderSize_def isDeviceLandscape_def Let_def
    by (simp only: h r0 if_False if_distrib [of Result])
qed

lemma fit_height_first:
  fixes q :: real
  assumes "0 < q" and "0 < vh" and "0 < B"
    and "r = (if vh * q > B then \<lparr>width = B, height = B / q\<rparr> else \<lparr>width = vh * q, height = vh\<rparr>)"
  shows "0 < width r \<and> 0 < height r \<and> width r / height r = q \<and> width r \<le> B \<and> height r \<le> vh"
proof (cases "vh * q > B")
  case True
  then have "B / q < vh" using assms(1) by (simp add: field_simps)
  with True assms show ?thesis by simp
next
  case False
  with assms show ?thesis by simp
qed

lemma fit_width_first:
  fixes q :: real
  assumes "0 < q" and "0 < vw" and "0 < A"
    and "r = (if vw / q > A then \<lparr>width = A * q, height = A\<rparr> else \<lparr>width = vw, height = vw / q\<rparr>)"
  shows "0 < width r \<and> 0 < height r \<and> width r / height r = q \<and> width r \<le> vw \<and> height r \<le> A"
proof (cases "vw / q > A")
  case True
  then have "A * q < vw" using assms(1) by (simp add: field_simps)
  with True assms show ?thesis by simp
next
  case False
  with assms show ?thesis by simp
qed

text \<open>
  C4, as stated, fails on a very low window: at \<open>100 \<times> 10\<close> the device is landscape, the
  available height \<open>height - 20\<close> is \<open>-10\<close>, and the rectangle returned has height
  \<open>-9.2\<close>, which exceeds it.
\<close>

theorem viewfinder_budget_counterexample:
  "(0::real) < 100 \<and> (0::real) < 10 \<and>
   0 < width (filmFormat sample_settings) \<and> 0 < height (filmFormat sample_settings) \<and>
   calculateViewfinderSize \<lparr>width = 100, height = 10\<rparr> sample_settings =
     Result \<lparr>width = - (69 / 5), height = - (46 / 5)\<rparr> \<and>
   availableSpace \<lparr>width = 100, height = 10\<rparr> = \<lparr>width = 58, height = - 10\<rparr> \<and>
   \<not> (height \<lparr>width = - (69 / 5), height = - (46 / 5) :: real\<rparr>
        \<le> height (availableSpace \<lparr>width = 100, height = 10\<rparr>))"
  by (simp add: calculateViewfinderSize_def availableSpace_def isDeviceLandscape_def
      getEffectiveDimensions_def sample_settings_def Let_def)

text \<open>
  C4, amended. For every window of positive width and height whose margin-adjusted budget
  is positive (height above \<open>20\<close> on a landscape device, width above \<open>32\<close> on a portrait
  device) and every film format of positive width and height, the rectangle returned by
  \<^verbatim>\<open>calculateViewfinderSize\<close> has \<open>width / height\<close> equal to the effective film aspect
  ratio (the format's width and height, swapped exactly when \<open>filmOrientation\<close> is
  portrait; an absent orientation is landscape), and neither side exceeds the available
  space of that branch.
\<close>

theorem viewfinder_fits_with_positive_budget:
  assumes "0 < width dims" and "0 < height dims"
    and "0 < width (filmFormat s)" and "0 < height (filmFormat s)"
    and "if isDeviceLandscape dims then 20 < height dims else 32 < width dims"
  shows "getEffectiveDimensions s =
           (if filmOrientation s = Some portrait
            then \<lparr>width = height (filmFormat s), height = width (filmFormat s)\<rparr>
            else \<lparr>width = width (filmFormat s), height = height (filmFormat s)\<rparr>) \<and>
         (\<exists>r. calculateViewfinderSize dims s = Result r \<and>
              0 < width r \<and> 0 < height r \<and>
              width r / height r =
                width (getEffectiveDimensions s) / height (getEffectiveDimensions s) \<and>
              width r \<le> width (availableSpace dims) \<and>
              height r \<le> height (availableSpace dims))"
proof
  show "getEffectiveDimensions s =
           (if filmOrientation s = Some portrait
            then \<lparr>width = height (filmFormat s), height = width (filmFormat s)\<rparr>
            else \<lparr>width = width (filmFormat s), height = height (filmFormat s)\<rparr>)"
  proof (cases "filmOrientation s")
    case None
    then show ?thesis by (simp add: getEffectiveDimensions_def Let_def)
  next
    case (Some v)
    then show ?thesis by (cases v) (simp_all add: getEffectiveDimensions_def Let_def)
  qed
next
  define q where "q = width (getEffectiveDimensions s) / height (getEffectiveDimensions s)"
  have q: "0 < q" using effective_ratio_pos [OF assms(3,4)] by (simp add: q_def)
  note br = calculateViewfinderSize_branches [OF assms(3,4), of dims, folded q_def]
  show "\<exists>r. calculateViewfinderSize dims s = Result r \<and>
              0 < width r \<and> 0 < height r \<and>
              width r / height r =
                width (getEffectiveDimensions s) / height (getEffectiveDimensions s) \<and>
              width r \<le> width (availableSpace dims) \<and>
              height r \<le> height (availableSpace dims)"
    unfolding q_def [symmetric]
  proof (cases "isDeviceLandscape dims")
    case True
    with assms(5) have H: "20 < height dims" by simp
    define vh where "vh = (height dims - 20) * 0.92"
    define B where "B = width dims * 0.58"
    define r where "r = (if vh * q > B then \<lparr>width = B, height = B / q\<rparr>
                         else \<lparr>width = vh * q, height = vh\<rparr>)"
    have vh: "0 < vh" "vh \<le> height dims - 20" using H by (simp_all add: vh_def)
    have B: "0 < B" using assms(1) by (simp add: B_def)
    have L: "width dims > height dims" using True by (simp add: isDeviceLandscape_def)
    have res: "calculateViewfinderSize dims s = Result r"
      unfolding r_def vh_def B_def using br L by (simp only: if_True)
    have av: "width (availableSpace dims) = B" "height (availableSpace dims) = height dims - 20"
      using True by (simp_all add: availableSpace_def B_def)
    from fit_height_first [OF q vh(1) B r_def] res vh(2) av
    show "\<exists>r. calculateViewfinderSize dims s = Result r \<and> 0 < width r \<and> 0 < height r \<and>
              width r / height r = q \<and> width r \<le> width (availableSpace dims) \<and>
              height r \<le> height (availableSpace dims)"
      by (intro exI [of _ r]) simp
  next
    case False
    with assms(5) have W: "32 < width dims" by simp
    define vw where "vw = (width dims - 32) * 0.95"
    define A where "A = height dims * 0.50"
    define r where "r = (if vw / q > A then \<lparr>width = A * q, height = A\<rparr>
                         else \<lparr>width = vw, height = vw / q\<rparr>)"
    have vw: "0 < vw" "vw \<le> width dims - 32" using W by (simp_all add: vw_def)
    have A: "0 < A" using assms(2) by (simp add: A_def)
    have P: "(width dims > height dims) = False" using False by (simp add: isDeviceLandscape_def)
    have res: "calculateViewfinderSize dims s = Result r"
      unfolding r_def vw_def A_def using br by (simp only: P if_False)
    have av: "width (availableSpace dims) = width dims - 32" "height (availableSpace dims) = A"
      using False by (simp_all add: availableSpace_def A_def)
    from fit_width_first [OF q vw(1) A r_def] res vw(2) av
    show "\<exists>r. calculateViewfinderSize dims s = Result r \<and> 0 < width r \<and> 0 < height r \<and>
              width r / height r = q \<and> width r \<le> width (availableSpace dims) \<and>
              height r \<le> height (availableSpace dims)"
      by (intro exI [of _ r]) simp
  qed
qed

theorem viewfinder_fits_with_positive_budget_witness:
  "getEffectiveDimensions sample_settings = \<lparr>width = 9, height = 6\<rparr> \<and>
   (\<exists>r. calculateViewfinderSize \<lparr>width = 800, height = 400\<rparr> sample_settings = Result r \<and>
        width r / height r = 3 / 2 \<and> width r \<le> 464 \<and> height r \<le> 380) \<and>
   (\<exists>r. calculateViewfinderSize \<lparr>width = 400, height = 800\<rparr> sample_settings = Result r \<and>
        width r / height r = 3 / 2 \<and> width r \<le> 368 \<and> height r \<le> 400)"
proof -
  have e: "getEffectiveDimensions sample_settings = \<lparr>width = 9, height = 6\<rparr>"
    using viewfinder_fits_with_positive_budget
      [of "\<lparr>width = 800, height = 400\<rparr>" sample_settings]
    by (simp add: sample_settings_def isDeviceLandscape_def)
  have a: "\<exists>r. calculateViewfinderSize \<lparr>width = 800, height = 400\<rparr> sample_settings = Result r \<and>
        width r / height r = 3 / 2 \<and> width r \<le> 464 \<and> height r \<le> 380"
    using viewfinder_fits_with_positive_budget
      [of "\<lparr>width = 800, height = 400\<rparr>" sample_settings]
    by (simp add: e) (auto simp: sample_settings_def isDeviceLandscape_def availableSpace_def)
  have b: "\<exists>r. calculateViewfinderSize \<lparr>width = 400, height = 800\<rparr> sample_settings = Result r \<and>
        width r / height r = 3 / 2 \<and> width r \<le> 368 \<and> height r \<le> 400"
    using viewfinder_fits_with_positive_budget
      [of "\<lparr>width = 400, height = 800\<rparr>" sample_settings]
    by (simp add: e) (auto simp: sample_settings_def isDeviceLandscape_def availableSpace_def)
  from e a b show ?thesis by blast
qed


section \<open>Claims about the stored profiles\<close>

text \<open>
  C2, as stated, fails for \<^verbatim>\<open>saveProfile\<close>: the new profile is put into the component
  state before the write is awaited, and no \<^verbatim>\<open>try\<close> surrounds the write. When
  \<^verbatim>\<open>AsyncStorage.setItem\<close> rejects, the list in memory, which held one profile, holds
  the new profile as well, and nothing is logged.
\<close>

theorem saveProfile_failure_counterexample:
  "snd (saveProfile 42 sample_stringify failing_setItem sample_settings sample_state)
     = Rejected ''write failed'' \<and>
   profiles sample_state = [stored_profile] \<and>
   profiles (fst (saveProfile 42 sample_stringify failing_setItem sample_settings sample_state))
     = [stored_profile,
        \<lparr>Profile.id = ''42'', Profile.name = [0x42, 0x6F, 0x78], Profile.focalLength = 48,
         Profile.pinholeSize = 1 / 4,
         Profile.filmFormat = \<lparr>width = 6, height = 9, filmFormat.name = ''6x9''\<rparr>,
         Profile.filmOrientation = portrait, Profile.iso = 64\<rparr>] \<and>
   profiles (fst (saveProfile 42 sample_stringify failing_setItem sample_settings sample_state))
     \<noteq> profiles sample_state \<and>
   console (fst (saveProfile 42 sample_stringify failing_setItem sample_settings sample_state)) = []"
  by (simp add: saveProfile_def sample_state_def sample_settings_def failing_setItem_def
      js_trim_def is_js_space_def showNat.simps digit_char_def Let_def)

text \<open>
  C2, amended. When \<^verbatim>\<open>AsyncStorage.getItem\<close> throws, \<^verbatim>\<open>loadProfiles\<close> logs the error and
  leaves the component state, the profiles list included, as it was. \<^verbatim>\<open>saveProfile\<close>,
  called with a name that is not blank, leaves the profiles list with the new profile
  appended whatever the write does; when \<^verbatim>\<open>AsyncStorage.setItem\<close> rejects, every other part
  of the state is as it was, nothing is logged, and its promise rejects with the
  storage's error. Called with a blank name (white space only, in the sense of
  \<^verbatim>\<open>String.prototype.trim\<close>) it saves nothing and opens the error dialog.
\<close>

theorem storage_failure_behaviour:
  "let newProfile =
         \<lparr>Profile.id = showNat now, Profile.name = profileName st,
          Profile.focalLength = focalLength settings,
          Profile.pinholeSize = pinholeSize settings,
          Profile.filmFormat = filmFormat settings,
          Profile.filmOrientation =
            (case filmOrientation settings of None \<Rightarrow> landscape | Some v \<Rightarrow> v),
          Profile.iso = iso settings\<rparr>;
       saved = saveProfile now JSON_stringify setItem settings st
   in (getItem ''camera_profiles'' = Rejected e \<longrightarrow>
         loadProfiles JSON_parse getItem st =
           st\<lparr>console := console st @ [''Error loading profiles:'']\<rparr> \<and>
         profiles (loadProfiles JSON_parse getItem st) = profiles st) \<and>
      (js_trim (profileName st) \<noteq> [] \<longrightarrow>
         profiles (fst saved) = profiles st @ [newProfile] \<and>
         console (fst saved) = console st) \<and>
      (js_trim (profileName st) \<noteq> [] \<and>
       setItem ''camera_profiles'' (JSON_stringify (profiles st @ [newProfile])) = Rejected e' \<longrightarrow>
         saved = (st\<lparr>profiles := profiles st @ [newProfile]\<rparr>, Rejected e')) \<and>
      (js_trim (profileName st) = [] \<longrightarrow>
         saved = (st\<lparr>alerts := alerts st @ [(''Error'', ''Please enter a profile name'')]\<rparr>,
                  Resolved ()))"
proof -
  have load: "loadProfiles JSON_parse getItem st =
                st\<lparr>console := console st @ [''Error loading profiles:'']\<rparr>"
    if "getItem ''camera_profiles'' = Rejected e"
    using that by (simp add: loadProfiles_def)
  have kept: "profiles (st\<lparr>console := console st @ [''Error loading profiles:'']\<rparr>) = profiles st"
    by simp
  have save: "profiles (fst (saveProfile now JSON_stringify setItem settings st)) =
                profiles st @ [p] \<and>
              console (fst (saveProfile now JSON_stringify setItem settings st)) = console st"
    if "js_trim (profileName st) \<noteq> []"
      and "p = \<lparr>Profile.id = showNat now, Profile.name = profileName st,
          Profile.focalLength = focalLength settings,
          Profile.pinholeSize = pinholeSize settings,
          Profile.filmFormat = filmFormat settings,
          Profile.filmOrientation =
            (case filmOrientation settings of None \<Rightarrow> landscape | Some v \<Rightarrow> v),
          Profile.iso = iso settings\<rparr>" for p
    using that by (simp add: saveProfile_def Let_def split: promise.splits)
  have fail: "saveProfile now JSON_stringify setItem settings st =
                (st\<lparr>profiles := profiles st @ [p]\<rparr>, Rejected e')"
    if "js_trim (profileName st) \<noteq> []"
      and "p = \<lparr>Profile.id = showNat now, Profile.name = profileName st,
          Profile.focalLength = focalLength settings,
          Profile.pinholeSize = pinholeSize settings,
          Profile.filmFormat = filmFormat settings,
          Profile.filmOrientation =
            (case filmOrientation settings of None \<Rightarrow> landscape | Some v \<Rightarrow> v),
          Profile.iso = iso settings\<rparr>"
      and "setItem ''camera_profiles'' (JSON_stringify (profiles st @ [p])) = Rejected e'" for p
    using that by (simp add: saveProfile_def Let_def)
  have blank: "saveProfile now JSON_stringify setItem settings st =
                 (st\<lparr>alerts := alerts st @ [(''Error'', ''Please enter a profile name'')]\<rparr>,
                  Resolved ())"
    if "js_trim (profileName st) = []"
    using that by (simp add: saveProfile_def)
  show ?thesis
    unfolding Let_def
    using load kept save fail blank by (intro conjI impI) (simp_all only:, blast+)
qed

theorem storage_failure_behaviour_witness:
  "loadProfiles sample_parse failing_getItem sample_state =
     sample_state\<lparr>console := [''Error loading profiles:'']\<rparr> \<and>
   profiles (loadProfiles sample_parse failing_getItem sample_state) = [stored_profile] \<and>
   saveProfile 42 sample_stringify failing_setItem sample_settings sample_state =
     (sample_state\<lparr>profiles :=
        [stored_profile,
         \<lparr>Profile.id = ''42'', Profile.name = [0x42, 0x6F, 0x78], Profile.focalLength = 48,
          Profile.pinholeSize = 1 / 4,
          Profile.filmFormat = \<lparr>width = 6, height = 9, filmFormat.name = ''6x9''\<rparr>,
          Profile.filmOrientation = portrait, Profile.iso = 64\<rparr>]\<rparr>,
      Rejected ''write failed'') \<and>
   js_trim (profileName blank_name_state) = [] \<and>
   saveProfile 42 sample_stringify failing_setItem sample_settings blank_name_state =
     (blank_name_state\<lparr>alerts := [(''Error'', ''Please enter a profile name'')]\<rparr>,
      Resolved ())"
proof -
  have a: "loadProfiles sample_parse failing_getItem sample_state =
     sample_state\<lparr>console := [''Error loading profiles:'']\<rparr> \<and>
   profiles (loadProfiles sample_parse failing_getItem sample_state) = [stored_profile] \<and>
   saveProfile 42 sample_stringify failing_setItem sample_settings sample_state =
     (sample_state\<lparr>profiles :=
        [stored_profile,
         \<lparr>Profile.id = ''42'', Profile.name = [0x42, 0x6F, 0x78], Profile.focalLength = 48,
          Profile.pinholeSize = 1 / 4,
          Profile.filmFormat = \<lparr>width = 6, height = 9, filmFormat.name = ''6x9''\<rparr>,
          Profile.filmOrientation = portrait, Profile.iso = 64\<rparr>]\<rparr>,
      Rejected ''write failed'')"
    using storage_failure_behaviour
      [where getItem = failing_getItem and e = "''read failed''" and JSON_parse = sample_parse
         and st = sample_state and setItem = failing_setItem and JSON_stringify = sample_stringify
         and now = 42 and settings = sample_settings and e' = "''write failed''"]
    by (simp add: sample_state_def sample_settings_def failing_setItem_def failing_getItem_def
        js_trim_def is_js_space_def showNat.simps digit_char_def Let_def)
  have t: "js_trim (profileName blank_name_state) = []"
    by (simp add: blank_name_state_def sample_state_def js_trim_def is_js_space_def)
  have b: "saveProfile 42 sample_stringify failing_setItem sample_settings blank_name_state =
     (blank_name_state\<lparr>alerts := [(''Error'', ''Please enter a profile name'')]\<rparr>,
      Resolved ())"
    using storage_failure_behaviour
      [where st = blank_name_state and setItem = failing_setItem
         and JSON_stringify = sample_stringify and now = 42 and settings = sample_settings] t
    by (simp add: Let_def) (simp add: blank_name_state_def sample_state_def)
  from a t b show ?thesis by blast
qed

end
